theory Spec2Isabelle
  imports Complex_Main "HOL-Library.Sublist" "HOL-Library.Word"
begin

section \<open>Strings and exceptions\<close>

text \<open>
  Python strings are modelled as their UTF-8 bytes (\<^typ>\<open>string\<close>). \<open>str.lower\<close> is
  modelled on the ASCII capitals only. For the one test the program makes with it
  (\<open>"monitor" in name.lower()\<close>) this decides the same as Python's Unicode lowering: the
  only non-ASCII code points whose lower case holds an ASCII letter are U+212A (to \<open>k\<close>,
  not a letter of the pattern) and U+0130 (to \<open>i\<close> followed by U+0307, so that no \<open>t\<close>
  can follow the \<open>i\<close>).
\<close>

definition lower_char :: "char \<Rightarrow> char" where
  "lower_char c =
     (let n = (of_char c :: nat) in if 65 \<le> n \<and> n \<le> 90 then char_of (n + 32) else c)"

definition lower :: "string \<Rightarrow> string" where
  "lower s = map lower_char s"

text \<open>Python's \<open>pat in s\<close> on strings: \<open>pat\<close> occurs in \<open>s\<close> as a contiguous run.\<close>

fun py_in :: "string \<Rightarrow> string \<Rightarrow> bool" where
  "py_in pat [] = (pat = [])"
| "py_in pat (c # cs) = (prefix pat (c # cs) \<or> py_in pat cs)"

text \<open>
  An exception is its class and the text \<open>str(e)\<close> gives. The classes told apart are the
  ones the program tells apart: the two exceptions of the speech-recognition library that
  \<open>transcribe\<close> names, every other class deriving from \<open>Exception\<close>, and the classes that
  derive from \<open>BaseException\<close> only, which \<open>except Exception\<close> does not catch.
\<close>

datatype exn_class = UnknownValueError | RequestError | OtherException | NonException

datatype exn = Exn exn_class string

fun exn_str :: "exn \<Rightarrow> string" where
  "exn_str (Exn c m) = m"

fun is_Exception :: "exn \<Rightarrow> bool" where
  "is_Exception (Exn c m) = (c \<noteq> NonException)"

section \<open>Finding the monitor device (main.py)\<close>

record device_info =
  name :: string
  max_input_channels :: int

text \<open>
  The loop \<open>for i, device in enumerate(devices)\<close>, with the running index \<open>i\<close>. The
  name of the device found is also printed to the console, which the model does not hold.
\<close>

fun find_monitor :: "nat \<Rightarrow> device_info list \<Rightarrow> exn + nat" where
  "find_monitor i [] =
     Inl (Exn OtherException ''No PulseAudio monitor device found. Install pavucontrol.'')"
| "find_monitor i (d # ds) =
     (if py_in ''monitor'' (lower (name d)) \<and> max_input_channels d > 0
      then Inr i
      else find_monitor (Suc i) ds)"

definition get_monitor_device :: "device_info list \<Rightarrow> exn + nat" where
  "get_monitor_device devices = find_monitor 0 devices"

text \<open>
  What the claim about \<open>get_monitor_device\<close> calls an audio input device whose name
  contains \<open>monitor\<close>, compared without regard to case.
\<close>

definition monitor_input :: "device_info \<Rightarrow> bool" where
  "monitor_input d = (sublist ''monitor'' (lower (name d)) \<and> 0 < max_input_channels d)"

section \<open>Arrays of samples\<close>

text \<open>
  The recording buffer is a numpy array of \<open>float32\<close>. Its samples are modelled as real
  numbers: the rounding of the float operations is not modelled, and the samples a device
  delivers are taken to be finite. The shapes are the ones the two programs can hold:
  \<open>(n,)\<close>, and \<open>(n, 1)\<close> and \<open>(n, 2)\<close> as \<open>sd.rec\<close> returns them for one and two channels.
\<close>

datatype 'a ndarray =
    Flat "'a list"
  | Col "'a list"
  | Stereo "('a \<times> 'a) list"

fun ndim :: "'a ndarray \<Rightarrow> nat" where
  "ndim (Flat xs) = 1"
| "ndim (Col xs) = 2"
| "ndim (Stereo ps) = 2"

fun n_frames :: "'a ndarray \<Rightarrow> nat" where
  "n_frames (Flat xs) = length xs"
| "n_frames (Col xs) = length xs"
| "n_frames (Stereo ps) = length ps"

text \<open>All elements, row by row (the order of the samples in a wave file).\<close>

fun elems :: "'a ndarray \<Rightarrow> 'a list" where
  "elems (Flat xs) = xs"
| "elems (Col xs) = xs"
| "elems (Stereo ps) = concat (map (\<lambda>(l, r). [l, r]) ps)"

text \<open>An elementwise operation keeps the shape.\<close>

fun map_nd :: "('a \<Rightarrow> 'b) \<Rightarrow> 'a ndarray \<Rightarrow> 'b ndarray" where
  "map_nd f (Flat xs) = Flat (map f xs)"
| "map_nd f (Col xs) = Col (map f xs)"
| "map_nd f (Stereo ps) = Stereo (map (\<lambda>(l, r). (f l, f r)) ps)"

text \<open>\<open>np.mean(a, axis=1)\<close> on a two-dimensional array: one mean per frame, shape \<open>(n,)\<close>.\<close>

fun mean_axis1 :: "real ndarray \<Rightarrow> real ndarray" where
  "mean_axis1 (Col xs) = Flat xs"
| "mean_axis1 (Stereo ps) = Flat (map (\<lambda>(l, r). (l + r) / 2) ps)"
| "mean_axis1 (Flat xs) = Flat xs"

text \<open>
  \<open>np.max(np.abs(a))\<close>: the largest absolute value of all elements; numpy raises
  \<open>ValueError\<close> on an array with no element.
\<close>

definition np_max_abs :: "real ndarray \<Rightarrow> exn + real" where
  "np_max_abs a =
     (case elems a of
        [] \<Rightarrow> Inl (Exn OtherException
                 ''zero-size array to reduction operation maximum which has no identity'')
      | x # xs \<Rightarrow> Inr (fold max (map abs xs) \<bar>x\<bar>))"

text \<open>
  A float after a division: numpy does not raise on a zero divisor, it gives \<open>nan\<close> for
  \<open>0/0\<close> and an infinity otherwise (with a warning), and these propagate through the
  multiplication by 32767.
\<close>

datatype npfloat = Fin real | PInf | NInf | NaN

definition np_div :: "real \<Rightarrow> real \<Rightarrow> npfloat" where
  "np_div x m =
     (if m \<noteq> 0 then Fin (x / m)
      else if x = 0 then NaN
      else if 0 < x then PInf else NInf)"

fun np_mul :: "npfloat \<Rightarrow> real \<Rightarrow> npfloat" where
  "np_mul (Fin y) k = Fin (y * k)"
| "np_mul PInf k = (if k = 0 then NaN else if 0 < k then PInf else NInf)"
| "np_mul NInf k = (if k = 0 then NaN else if 0 < k then NInf else PInf)"
| "np_mul NaN k = NaN"

text \<open>
  \<open>np.int16(a)\<close>: a finite value is truncated towards zero and stored in 16 bits. What
  the cast makes of \<open>nan\<close> or an infinity depends on the platform; it is the parameter
  \<open>nf\<close>.
\<close>

definition trunc :: "real \<Rightarrow> int" where
  "trunc y = (if 0 \<le> y then \<lfloor>y\<rfloor> else \<lceil>y\<rceil>)"

fun np_int16 :: "16 word \<Rightarrow> npfloat \<Rightarrow> 16 word" where
  "np_int16 nf (Fin y) = word_of_int (trunc y)"
| "np_int16 nf v = nf"

section \<open>The wave file\<close>

datatype wav_format = PCM | IEEE_FLOAT

record wav =
  wav_rate :: nat
  wav_channels :: nat
  wav_bits :: nat
  wav_format :: wav_format
  wav_samples :: "16 word list"

definition SAMPLE_RATE :: nat where
  "SAMPLE_RATE = 44100"

definition AUDIO_FILE :: string where
  "AUDIO_FILE = ''answer.wav''"

text \<open>
  \<open>scipy.io.wavfile.write(filename, rate, data)\<close> for an array of \<open>int16\<close>: it opens the
  file for writing, which replaces what the file held, and writes a PCM header with one
  channel for a one-dimensional array and as many channels as the array has columns
  otherwise, 16 bits per sample, then the samples. The failure modelled is the one of
  opening the file (\<open>raises\<close>), which leaves the file system as it was.
\<close>

fun n_columns :: "'a ndarray \<Rightarrow> nat" where
  "n_columns (Flat xs) = 1"
| "n_columns (Col xs) = 1"
| "n_columns (Stereo ps) = 2"

definition wavfile_write ::
  "exn option \<Rightarrow> string \<Rightarrow> nat \<Rightarrow> 16 word ndarray \<Rightarrow> (string \<rightharpoonup> wav) \<Rightarrow> exn + (string \<rightharpoonup> wav)"
where
  "wavfile_write raises filename rate data fs =
     (case raises of
        Some e \<Rightarrow> Inl e
      | None \<Rightarrow> Inr (fs(filename \<mapsto>
          \<lparr>wav_rate = rate, wav_channels = n_columns data, wav_bits = 16,
           wav_format = PCM, wav_samples = elems data\<rparr>)))"

section \<open>JSON values and the HTTP reply\<close>

text \<open>A parsed JSON value; an object is the list of its members, with distinct keys.\<close>

datatype json =
    JNull
  | JBool bool
  | JNum int
  | JStr string
  | JArr "json list"
  | JObj "(string \<times> json) list"

text \<open>
  What \<open>requests.post\<close> gives: it raises (no connection), or it returns a response with
  a status code, the text \<open>raise_for_status\<close> puts in its \<open>HTTPError\<close>, and what
  \<open>response.json()\<close> gives (the parsed body, or the exception of the decoder).
\<close>

record response =
  status_code :: nat
  status_text :: string
  json_body :: "exn + json"

datatype http_result = PostRaises exn | Response response

section \<open>The environment and the state\<close>

text \<open>
  Everything the programs take from outside is a field of the environment: the devices
  that \<open>sd.query_devices()\<close> lists, whether \<open>sd.rec\<close> and the file write raise, the signal
  captured (by frame and channel), whether reading the wave file back raises, what the
  speech service answers for a wave file, what the chat server answers to a request, and
  three things of the platform that are not modelled further: the \<open>int16\<close> a non-finite
  float is cast to, the text of the \<open>TypeError\<close> of subscripting a value that is not a
  dictionary, and \<open>str\<close> of a JSON value that is not a string.
\<close>

record env =
  devices :: "device_info list"
  rec_raises :: "exn option"
  audio :: "nat \<Rightarrow> nat \<Rightarrow> real"
  write_raises :: "exn option"
  audiofile_raises :: "string option"
  google_result :: "wav \<Rightarrow> exn + string"
  server_reply :: "string \<Rightarrow> json \<Rightarrow> http_result"
  nonfinite_int16 :: "16 word"
  subscript_error :: "json \<Rightarrow> string"
  str_of :: "json \<Rightarrow> string"

record rec_args =
  frames :: nat
  samplerate :: nat
  channels :: nat
  dtype :: string
  device :: "nat option"

text \<open>
  The state is the attributes of the application object that the handlers read and write
  (the label's text, the three buttons' \<open>disabled\<close>, \<open>recording\<close>, \<open>monitor_device\<close>), and
  the parts of the world they change: the input stream of the sound library (the
  arguments it was opened with, \<open>None\<close> when stopped), the file system, and the requests
  sent to the chat server, oldest first.
\<close>

record state =
  label_text :: string
  start_disabled :: bool
  stop_disabled :: bool
  gen_disabled :: bool
  recording :: "real ndarray option"
  monitor_device :: "nat option"
  stream :: "rec_args option"
  files :: "string \<rightharpoonup> wav"
  http_log :: "(string \<times> json) list"

text \<open>
  \<open>sd.rec(frames, samplerate=, channels=, dtype=, device=)\<close>: it stops the stream of an
  earlier call, allocates an array of \<open>frames\<close> rows and \<open>channels\<close> columns, opens an
  input stream that fills it, and returns the array at once. The array is modelled with
  the content it has when the handlers read it. Only the channel counts the two programs
  ask for are modelled (one, and two for any other count).
\<close>

definition sd_rec :: "env \<Rightarrow> rec_args \<Rightarrow> state \<Rightarrow> (exn + real ndarray) \<times> state" where
  "sd_rec env a s =
     (case rec_raises env of
        Some e \<Rightarrow> (Inl e, s\<lparr>stream := None\<rparr>)
      | None \<Rightarrow>
          (Inr (if channels a = 1
                then Col (map (\<lambda>i. audio env i 0) [0..<frames a])
                else Stereo (map (\<lambda>i. (audio env i 0, audio env i 1)) [0..<frames a])),
           s\<lparr>stream := Some a\<rparr>))"

text \<open>\<open>sd.stop()\<close> stops the stream and ignores errors.\<close>

definition sd_stop :: "state \<Rightarrow> state" where
  "sd_stop s = s\<lparr>stream := None\<rparr>"

section \<open>Texts of the label\<close>

definition nl :: string where
  "nl = [CHR 0x0A]"

definition emoji_microphone :: string where
  "emoji_microphone = [CHR 0xF0, CHR 0x9F, CHR 0x8E, CHR 0x99]"

definition emoji_cross :: string where
  "emoji_cross = [CHR 0xE2, CHR 0x9D, CHR 0x8C]"

definition emoji_check :: string where
  "emoji_check = [CHR 0xE2, CHR 0x9C, CHR 0x85]"

definition emoji_hourglass :: string where
  "emoji_hourglass = [CHR 0xE2, CHR 0x8F, CHR 0xB3]"

definition emoji_mic :: string where
  "emoji_mic = [CHR 0xF0, CHR 0x9F, CHR 0x8E, CHR 0xA4]"

definition emoji_robot :: string where
  "emoji_robot = [CHR 0xF0, CHR 0x9F, CHR 0xA4, CHR 0x96]"

definition emoji_warning :: string where
  "emoji_warning = [CHR 0xE2, CHR 0x9A, CHR 0xA0, CHR 0xEF, CHR 0xB8, CHR 0x8F]"

section \<open>main.py: recording\<close>

text \<open>The state \<open>build\<close> leaves, before any handler has run, with nothing on disk yet.\<close>

definition main_build :: state where
  "main_build =
     \<lparr>label_text = ''[b]Press Start to record Speaker Audio[/b]'',
      start_disabled = False, stop_disabled = True, gen_disabled = True,
      recording = None, monitor_device = None, stream = None,
      files = Map.empty, http_log = []\<rparr>"

text \<open>
  A handler returns the exception that escapes it, if any, and the state it leaves. A
  \<open>try\<close> block returns the exception raised inside it, if any, and the state at that
  point. The \<open>except Exception as e\<close> clause of \<open>start_recording\<close>:
\<close>

definition main_start_except :: "exn \<Rightarrow> state \<Rightarrow> exn option \<times> state" where
  "main_start_except e s =
     (if is_Exception e
      then (None, s\<lparr>label_text := ''[b]'' @ emoji_cross @ '' Error:[/b]'' @ nl @ exn_str e,
                     start_disabled := False, stop_disabled := True\<rparr>)
      else (Some e, s))"

definition main_rec_args :: "nat \<Rightarrow> rec_args" where
  "main_rec_args i =
     \<lparr>frames = 60 * SAMPLE_RATE, samplerate = SAMPLE_RATE, channels = 2,
      dtype = ''float32'', device = Some i\<rparr>"

definition main_start_try :: "env \<Rightarrow> state \<Rightarrow> exn option \<times> state" where
  "main_start_try env s =
     (let s1 = s\<lparr>label_text := ''[b]'' @ emoji_microphone @ '' Recording Speaker Audio...[/b]'',
                  start_disabled := True, stop_disabled := False, gen_disabled := True\<rparr>
      in case get_monitor_device (devices env) of
           Inl e \<Rightarrow> (Some e, s1)
         | Inr i \<Rightarrow>
             (let s2 = s1\<lparr>monitor_device := Some i\<rparr>
              in case sd_rec env (main_rec_args i) s2 of
                   (Inl e, s3) \<Rightarrow> (Some e, s3)
                 | (Inr buf, s3) \<Rightarrow> (None, s3\<lparr>recording := Some buf\<rparr>)))"

definition main_start_recording :: "env \<Rightarrow> state \<Rightarrow> exn option \<times> state" where
  "main_start_recording env s =
     (case main_start_try env s of
        (None, s') \<Rightarrow> (None, s')
      | (Some e, s') \<Rightarrow> main_start_except e s')"

text \<open>The two branches of \<open>if max_val > 0\<close> in \<open>stop_recording\<close>.\<close>

definition main_to_int16 :: "16 word \<Rightarrow> real \<Rightarrow> real ndarray \<Rightarrow> 16 word ndarray" where
  "main_to_int16 nf max_val a =
     (if max_val > 0
      then map_nd (\<lambda>x. np_int16 nf (np_mul (np_div x max_val) 32767)) a
      else map_nd (\<lambda>x. np_int16 nf (Fin x)) a)"

definition main_stop_recording :: "env \<Rightarrow> state \<Rightarrow> exn option \<times> state" where
  "main_stop_recording env s =
     (let s0 = sd_stop s
      in case recording s0 of
           None \<Rightarrow> (None, s0)
         | Some r \<Rightarrow>
             (let r1 = (if ndim r = 2 then mean_axis1 r else r);
                  s1 = s0\<lparr>recording := Some r1\<rparr>
              in case np_max_abs r1 of
                   Inl e \<Rightarrow> (Some e, s1)
                 | Inr max_val \<Rightarrow>
                     (case wavfile_write (write_raises env) AUDIO_FILE SAMPLE_RATE
                             (main_to_int16 (nonfinite_int16 env) max_val r1) (files s1) of
                        Inl e \<Rightarrow> (Some e, s1)
                      | Inr fs \<Rightarrow>
                          (None, s1\<lparr>files := fs,
                                    label_text := ''[b]'' @ emoji_check @
                                      '' Speaker Recording Saved[/b]'' @ nl @ ''Click Generate.'',
                                    stop_disabled := True, gen_disabled := False,
                                    start_disabled := False\<rparr>))))"

section \<open>test.py: recording\<close>

definition test_build :: state where
  "test_build =
     \<lparr>label_text = ''Press Start to record your answer'',
      start_disabled = False, stop_disabled = True, gen_disabled = True,
      recording = None, monitor_device = None, stream = None,
      files = Map.empty, http_log = []\<rparr>"

definition test_rec_args :: rec_args where
  "test_rec_args =
     \<lparr>frames = 60 * SAMPLE_RATE, samplerate = SAMPLE_RATE, channels = 1,
      dtype = ''float32'', device = None\<rparr>"

definition test_start_recording :: "env \<Rightarrow> state \<Rightarrow> exn option \<times> state" where
  "test_start_recording env s =
     (let s1 = s\<lparr>label_text := ''[b]'' @ emoji_microphone @ '' Recording...[/b]'',
                  start_disabled := True, stop_disabled := False, gen_disabled := True\<rparr>
      in case sd_rec env test_rec_args s1 of
           (Inl e, s2) \<Rightarrow> (Some e, s2)
         | (Inr buf, s2) \<Rightarrow> (None, s2\<lparr>recording := Some buf\<rparr>))"

text \<open>The expression \<open>np.int16(self.recording / np.max(np.abs(self.recording)) * 32767)\<close>.\<close>

definition test_to_int16 :: "16 word \<Rightarrow> real \<Rightarrow> real ndarray \<Rightarrow> 16 word ndarray" where
  "test_to_int16 nf max_val a = map_nd (\<lambda>x. np_int16 nf (np_mul (np_div x max_val) 32767)) a"

text \<open>With no recording, \<open>np.abs(None)\<close> raises \<open>TypeError\<close>.\<close>

definition test_stop_recording :: "env \<Rightarrow> state \<Rightarrow> exn option \<times> state" where
  "test_stop_recording env s =
     (let s0 = sd_stop s
      in case recording s0 of
           None \<Rightarrow> (Some (Exn OtherException
                      (''bad operand type for abs(): '' @ [CHR 0x27] @ ''NoneType'' @ [CHR 0x27])), s0)
         | Some r \<Rightarrow>
             (case np_max_abs r of
                Inl e \<Rightarrow> (Some e, s0)
              | Inr max_val \<Rightarrow>
                  (case wavfile_write (write_raises env) AUDIO_FILE SAMPLE_RATE
                          (test_to_int16 (nonfinite_int16 env) max_val r) (files s0) of
                     Inl e \<Rightarrow> (Some e, s0)
                   | Inr fs \<Rightarrow>
                       (None, s0\<lparr>files := fs,
                                 label_text := ''[b]'' @ emoji_check @
                                   '' Recording saved.[/b]'' @ nl @ ''Tap Generate.'',
                                 stop_disabled := True, gen_disabled := False,
                                 start_disabled := False\<rparr>))))"

section \<open>Transcribing and asking the model\<close>

text \<open>
  \<open>with sr.AudioFile(AUDIO_FILE) as source: audio = recognizer.record(source)\<close>: opening a
  file that does not exist raises \<open>FileNotFoundError\<close>; a file that cannot be read as
  audio raises as well (\<open>audiofile_raises\<close> holds the text). Neither is one of the two
  exceptions of the recognizer.
\<close>

definition read_audio :: "env \<Rightarrow> state \<Rightarrow> exn + wav" where
  "read_audio env s =
     (case files s AUDIO_FILE of
        None \<Rightarrow> Inl (Exn OtherException
                  (''[Errno 2] No such file or directory: '' @ [CHR 0x27] @ AUDIO_FILE @ [CHR 0x27]))
      | Some w \<Rightarrow>
          (case audiofile_raises env of
             Some m \<Rightarrow> Inl (Exn OtherException m)
           | None \<Rightarrow> Inr w))"

text \<open>
  \<open>transcribe\<close>, with the two texts it returns in place of the recognizer's exceptions
  as parameters: they are what differs between main.py and test.py.
\<close>

definition transcribe :: "string \<Rightarrow> string \<Rightarrow> env \<Rightarrow> state \<Rightarrow> exn + string" where
  "transcribe not_understood api_error env s =
     (case read_audio env s of
        Inl e \<Rightarrow> Inl e
      | Inr w \<Rightarrow>
          (case google_result env w of
             Inr text \<Rightarrow> Inr text
           | Inl (Exn UnknownValueError m) \<Rightarrow> Inr not_understood
           | Inl (Exn RequestError m) \<Rightarrow> Inr api_error
           | Inl e \<Rightarrow> Inl e))"

definition main_transcribe :: "env \<Rightarrow> state \<Rightarrow> exn + string" where
  "main_transcribe = transcribe ''Could not understand audio.'' ''Google API error.''"

definition test_transcribe :: "env \<Rightarrow> state \<Rightarrow> exn + string" where
  "test_transcribe =
     transcribe (emoji_cross @ '' Could not understand the audio.'')
                (emoji_warning @ '' Google API error.'')"

definition OLLAMA_URL :: string where
  "OLLAMA_URL = ''http://localhost:11434/api/chat''"

text \<open>The dictionary \<open>payload\<close>, with the content of the system message as parameter.\<close>

definition payload :: "string \<Rightarrow> string \<Rightarrow> json" where
  "payload system_content transcript =
     JObj [(''model'', JStr ''phi3:mini''),
           (''messages'',
              JArr [JObj [(''role'', JStr ''system''), (''content'', JStr system_content)],
                    JObj [(''role'', JStr ''user''), (''content'', JStr transcript)]]),
           (''stream'', JBool False),
           (''options'', JObj [(''num_predict'', JNum 150)])]"

text \<open>
  Python's \<open>obj[key]\<close> with a string key: a dictionary gives the value or raises
  \<open>KeyError\<close>, anything else raises \<open>TypeError\<close>.
\<close>

fun py_getitem :: "env \<Rightarrow> json \<Rightarrow> string \<Rightarrow> exn + json" where
  "py_getitem env (JObj kvs) k =
     (case map_of kvs k of
        Some v \<Rightarrow> Inr v
      | None \<Rightarrow> Inl (Exn OtherException ([CHR 0x27] @ k @ [CHR 0x27])))"
| "py_getitem env v k = Inl (Exn OtherException (subscript_error env v))"

text \<open>\<open>response.raise_for_status()\<close> raises for the status codes 400 to 599.\<close>

definition raise_for_status :: "response \<Rightarrow> exn option" where
  "raise_for_status r =
     (if 400 \<le> status_code r \<and> status_code r < 600
      then Some (Exn OtherException (status_text r))
      else None)"

definition call_llama :: "string \<Rightarrow> env \<Rightarrow> string \<Rightarrow> state \<Rightarrow> (exn + json) \<times> state" where
  "call_llama system_content env transcript s =
     (let body = payload system_content transcript;
          s1 = s\<lparr>http_log := http_log s @ [(OLLAMA_URL, body)]\<rparr>
      in case server_reply env OLLAMA_URL body of
           PostRaises e \<Rightarrow> (Inl e, s1)
         | Response r \<Rightarrow>
             (case raise_for_status r of
                Some e \<Rightarrow> (Inl e, s1)
              | None \<Rightarrow>
                  (case json_body r of
                     Inl e \<Rightarrow> (Inl e, s1)
                   | Inr j \<Rightarrow>
                       (case py_getitem env j ''message'' of
                          Inl e \<Rightarrow> (Inl e, s1)
                        | Inr m \<Rightarrow> (py_getitem env m ''content'', s1)))))"

definition main_system_content :: string where
  "main_system_content =
     ''You are an interview copilot. Give concise, point-wise answers in simple English.''"

definition test_system_content :: string where
  "test_system_content =
     ''You are helpfull assistant, You task is to generate response as per question,'' @ nl @
     ''                    Generate reponse in proper structure like below:'' @ nl @
     ''                    1. point1.....'' @ nl @
     ''                    2. point2.....'' @ nl @
     ''                    .'' @ nl @
     ''                    .'' @ nl @
     ''                    ''"

definition main_call_llama :: "env \<Rightarrow> string \<Rightarrow> state \<Rightarrow> (exn + json) \<times> state" where
  "main_call_llama = call_llama main_system_content"

definition test_call_llama :: "env \<Rightarrow> string \<Rightarrow> state \<Rightarrow> (exn + json) \<times> state" where
  "test_call_llama = call_llama test_system_content"

section \<open>The Generate button and its pipeline\<close>

text \<open>
  \<open>generate_response\<close> sets the label, disables the button and starts a thread that runs
  \<open>ai_pipeline\<close>; the pipeline is modelled as the run of that thread, from the state it
  finds.
\<close>

definition main_generate_response :: "state \<Rightarrow> state" where
  "main_generate_response s =
     s\<lparr>label_text := ''[b]'' @ emoji_hourglass @ '' Processing...[/b]'', gen_disabled := True\<rparr>"

definition test_generate_response :: "state \<Rightarrow> state" where
  "test_generate_response s =
     s\<lparr>label_text := ''[b]'' @ emoji_hourglass @ '' Transcribing & generating feedback...[/b]'',
       gen_disabled := True\<rparr>"

text \<open>\<open>f"{feedback}"\<close>: a string as it is, any other value through \<open>str\<close>.\<close>

fun format_value :: "env \<Rightarrow> json \<Rightarrow> string" where
  "format_value env (JStr t) = t"
| "format_value env v = str_of env v"

text \<open>
  The \<open>except Exception as e\<close> clause of \<open>ai_pipeline\<close>, and its \<open>finally\<close> clause, which
  runs whatever the clauses before it did and lets an exception still pending go on.
\<close>

definition pipeline_except :: "exn \<Rightarrow> state \<Rightarrow> exn option \<times> state" where
  "pipeline_except e s =
     (if is_Exception e
      then (None, s\<lparr>label_text := ''[b]'' @ emoji_cross @ '' Error[/b]'' @ nl @ exn_str e\<rparr>)
      else (Some e, s))"

definition pipeline_finally :: "exn option \<times> state \<Rightarrow> exn option \<times> state" where
  "pipeline_finally r = (fst r, (snd r)\<lparr>gen_disabled := False\<rparr>)"

definition try_except_finally :: "exn option \<times> state \<Rightarrow> exn option \<times> state" where
  "try_except_finally r =
     pipeline_finally
       (case r of
          (None, s') \<Rightarrow> (None, s')
        | (Some e, s') \<Rightarrow> pipeline_except e s')"

definition main_answer_text :: "string \<Rightarrow> string \<Rightarrow> string" where
  "main_answer_text transcript feedback =
     ''[b]'' @ emoji_mic @ '' Interviewer Said:[/b]'' @ nl @ transcript @ nl @ nl @
     ''[b]'' @ emoji_robot @ '' Suggested Answer:[/b]'' @ nl @ feedback"

definition test_answer_text :: "string \<Rightarrow> string \<Rightarrow> string" where
  "test_answer_text transcript feedback =
     ''[b] Interviewer Say:[/b]'' @ nl @ transcript @ nl @ nl @
     ''[b]'' @ emoji_robot @ '' Generated Answer:[/b]'' @ nl @ feedback"

definition main_pipeline_try :: "env \<Rightarrow> state \<Rightarrow> exn option \<times> state" where
  "main_pipeline_try env s =
     (case main_transcribe env s of
        Inl e \<Rightarrow> (Some e, s)
      | Inr transcript \<Rightarrow>
          (case main_call_llama env transcript s of
             (Inl e, s1) \<Rightarrow> (Some e, s1)
           | (Inr feedback, s1) \<Rightarrow>
               (None, s1\<lparr>label_text :=
                             main_answer_text transcript (format_value env feedback)\<rparr>)))"

definition main_ai_pipeline :: "env \<Rightarrow> state \<Rightarrow> exn option \<times> state" where
  "main_ai_pipeline env s = try_except_finally (main_pipeline_try env s)"

text \<open>test.py also prints the transcript to the console, which the state does not hold.\<close>

definition test_pipeline_try :: "env \<Rightarrow> state \<Rightarrow> exn option \<times> state" where
  "test_pipeline_try env s =
     (case test_transcribe env s of
        Inl e \<Rightarrow> (Some e, s)
      | Inr transcript \<Rightarrow>
          (case test_call_llama env transcript s of
             (Inl e, s1) \<Rightarrow> (Some e, s1)
           | (Inr feedback, s1) \<Rightarrow>
               (None, s1\<lparr>label_text :=
                             test_answer_text transcript (format_value env feedback)\<rparr>)))"

definition test_ai_pipeline :: "env \<Rightarrow> state \<Rightarrow> exn option \<times> state" where
  "test_ai_pipeline env s = try_except_finally (test_pipeline_try env s)"

section \<open>Runs of test.py\<close>

text \<open>
  The states test.py can be in: the one \<open>build\<close> leaves, and every state a handler or a
  run of the pipeline leaves from such a state, in any environment, whether or not an
  exception escaped.
\<close>

inductive test_reachable :: "state \<Rightarrow> bool" where
  built: "test_reachable test_build"
| started: "test_reachable s \<Longrightarrow> test_reachable (snd (test_start_recording env s))"
| stopped: "test_reachable s \<Longrightarrow> test_reachable (snd (test_stop_recording env s))"
| pressed: "test_reachable s \<Longrightarrow> test_reachable (test_generate_response s)"
| piped: "test_reachable s \<Longrightarrow> test_reachable (snd (test_ai_pipeline env s))"

section \<open>An environment to run the programs in\<close>

text \<open>
  A machine with a microphone and a monitor source, a silent signal, a speech service
  that hears \<open>hello\<close> and a chat server that answers \<open>hi\<close>.
\<close>

definition example_env :: env where
  "example_env =
     \<lparr>devices = [\<lparr>name = ''Built-in Audio Analog Stereo'', max_input_channels = 2\<rparr>,
                 \<lparr>name = ''Monitor of Built-in Audio'', max_input_channels = 2\<rparr>],
      rec_raises = None,
      audio = (\<lambda>i c. 0),
      write_raises = None,
      audiofile_raises = None,
      google_result = (\<lambda>w. Inr ''hello''),
      server_reply = (\<lambda>url body. Response
         \<lparr>status_code = 200, status_text = [],
          json_body = Inr (JObj [(''model'', JStr ''phi3:mini''),
                                 (''message'', JObj [(''role'', JStr ''assistant''),
                                                     (''content'', JStr ''hi'')]),
                                 (''done'', JBool True)])\<rparr>),
      nonfinite_int16 = 0x8000,
      subscript_error = (\<lambda>v. ''object is not subscriptable''),
      str_of = (\<lambda>v. ''None'')\<rparr>"

definition example_wav :: wav where
  "example_wav =
     \<lparr>wav_rate = 44100, wav_channels = 1, wav_bits = 16, wav_format = PCM,
      wav_samples = [0, 0]\<rparr>"

text \<open>The members of a JSON object, in order.\<close>

fun members :: "json \<Rightarrow> (string \<times> json) list" where
  "members (JObj kvs) = kvs"
| "members v = []"

section \<open>Properties\<close>

lemma py_in_sublist: "py_in pat s = sublist pat s"
  by (induction s) (simp_all add: sublist_Cons_right)

lemma find_monitor_Inr:
  "find_monitor k ds = Inr i \<longleftrightarrow>
     (k \<le> i \<and> i - k < length ds \<and> monitor_input (ds ! (i - k)) \<and>
      (\<forall>j < i - k. \<not> monitor_input (ds ! j)))"
proof (induction ds arbitrary: k)
  case Nil
  show ?case by simp
next
  case (Cons d ds)
  show ?case
  proof (cases "monitor_input d")
    case True
    then have "find_monitor k (d # ds) = Inr k"
      by (simp add: monitor_input_def py_in_sublist)
    moreover have "(k \<le> i \<and> i - k < length (d # ds) \<and> monitor_input ((d # ds) ! (i - k)) \<and>
      (\<forall>j < i - k. \<not> monitor_input ((d # ds) ! j))) \<longleftrightarrow> i = k"
      using True by (cases "i - k") auto
    ultimately show ?thesis by auto
  next
    case False
    then have step: "find_monitor k (d # ds) = find_monitor (Suc k) ds"
      by (auto simp: monitor_input_def py_in_sublist)
    have "(Suc k \<le> i \<and> i - Suc k < length ds \<and> monitor_input (ds ! (i - Suc k)) \<and>
            (\<forall>j < i - Suc k. \<not> monitor_input (ds ! j))) \<longleftrightarrow>
          (k \<le> i \<and> i - k < length (d # ds) \<and> monitor_input ((d # ds) ! (i - k)) \<and>
            (\<forall>j < i - k. \<not> monitor_input ((d # ds) ! j)))" (is "?L \<longleftrightarrow> ?R")
    proof
      assume L: ?L
      then have ik: "i - k = Suc (i - Suc k)" by arith
      have "\<not> monitor_input ((d # ds) ! j)" if "j < i - k" for j
        using that L False ik by (cases j) auto
      with L ik show ?R by auto
    next
      assume R: ?R
      have "i \<noteq> k" using R False by auto
      with R have ik: "i - k = Suc (i - Suc k)" by arith
      have "\<not> monitor_input (ds ! j)" if "j < i - Suc k" for j
      proof -
        from that ik have "Suc j < i - k" by arith
        with R have "\<not> monitor_input ((d # ds) ! Suc j)" by blast
        then show ?thesis by simp
      qed
      with R ik show ?L by auto
    qed
    with step Cons.IH [of "Suc k"] show ?thesis by simp
  qed
qed

lemma find_monitor_Inl:
  "(\<exists>e. find_monitor k ds = Inl e) \<longleftrightarrow> (\<forall>d \<in> set ds. \<not> monitor_input d)"
  by (induction ds arbitrary: k) (auto simp: monitor_input_def py_in_sublist)

text \<open>
  C2. \<open>get_monitor_device\<close> returns the index of the first device that is an input device
  (it has input channels) and whose lower-cased name contains \<open>monitor\<close>, and it raises
  exactly when the device_info list holds no such device.
\<close>

theorem get_monitor_device_first:
  "(get_monitor_device ds = Inr i \<longleftrightarrow>
      i < length ds \<and> monitor_input (ds ! i) \<and> (\<forall>j < i. \<not> monitor_input (ds ! j))) \<and>
   ((\<exists>e. get_monitor_device ds = Inl e) \<longleftrightarrow> (\<forall>d \<in> set ds. \<not> monitor_input d))"
  using find_monitor_Inr [of 0 ds i] find_monitor_Inl [of 0 ds]
  by (simp add: get_monitor_device_def)

theorem get_monitor_device_first_witness:
  "get_monitor_device
     [\<lparr>name = ''Built-in Audio Analog Stereo'', max_input_channels = 2\<rparr>,
      \<lparr>name = ''Monitor of Built-in Audio'', max_input_channels = 2\<rparr>] = Inr 1 \<and>
   monitor_input \<lparr>name = ''Monitor of Built-in Audio'', max_input_channels = 2\<rparr> \<and>
   \<not> monitor_input \<lparr>name = ''Built-in Audio Analog Stereo'', max_input_channels = 2\<rparr>"
proof -
  let ?ds = "[\<lparr>name = ''Built-in Audio Analog Stereo'', max_input_channels = 2\<rparr>,
              \<lparr>name = ''Monitor of Built-in Audio'', max_input_channels = 2\<rparr>]"
  have ev: "get_monitor_device ?ds = Inr 1"
    by code_simp
  from get_monitor_device_first [of ?ds 1] ev
  have "monitor_input (?ds ! 1) \<and> (\<forall>j < 1. \<not> monitor_input (?ds ! j))"
    by blast
  with ev show ?thesis by simp
qed

subsection \<open>Speech recognition\<close>

lemma read_audio_class:
  "read_audio env s = Inl (Exn c m) \<Longrightarrow> c = OtherException"
  by (auto simp: read_audio_def split: option.splits)

lemma transcribe_heard:
  "read_audio env s = Inr w \<Longrightarrow> google_result env w = Inr h \<Longrightarrow>
   transcribe nu ae env s = Inr h"
  by (simp add: transcribe_def)

lemma transcribe_unknown:
  "read_audio env s = Inr w \<Longrightarrow> google_result env w = Inl (Exn UnknownValueError m) \<Longrightarrow>
   transcribe nu ae env s = Inr nu"
  by (simp add: transcribe_def)

lemma transcribe_request:
  "read_audio env s = Inr w \<Longrightarrow> google_result env w = Inl (Exn RequestError m) \<Longrightarrow>
   transcribe nu ae env s = Inr ae"
  by (simp add: transcribe_def)

lemma transcribe_Inr:
  "transcribe nu ae env s = Inr t \<Longrightarrow>
   t = nu \<or> t = ae \<or> (\<exists>w. read_audio env s = Inr w \<and> google_result env w = Inr t)"
  by (auto simp: transcribe_def split: sum.splits exn.splits exn_class.splits)

lemma transcribe_Inl:
  "transcribe nu ae env s = Inl (Exn c m) \<Longrightarrow> c \<noteq> UnknownValueError \<and> c \<noteq> RequestError"
  by (auto simp: transcribe_def split: sum.splits exn.splits exn_class.splits
      dest: read_audio_class)

text \<open>
  C4. In both programs \<open>transcribe\<close> returns the text the speech service recognised, or
  one fixed text when the service raises \<open>UnknownValueError\<close> and another fixed text when
  it raises \<open>RequestError\<close>; whatever it returns is one of these three; and neither of the
  two exceptions ever leaves it.
\<close>

theorem transcribe_text_or_sentinel:
  "(read_audio env s = Inr w \<and> google_result env w = Inr heard \<longrightarrow>
      main_transcribe env s = Inr heard \<and> test_transcribe env s = Inr heard) \<and>
   (read_audio env s = Inr w \<and> google_result env w = Inl (Exn UnknownValueError m) \<longrightarrow>
      main_transcribe env s = Inr ''Could not understand audio.'' \<and>
      test_transcribe env s = Inr (emoji_cross @ '' Could not understand the audio.'')) \<and>
   (read_audio env s = Inr w \<and> google_result env w = Inl (Exn RequestError m) \<longrightarrow>
      main_transcribe env s = Inr ''Google API error.'' \<and>
      test_transcribe env s = Inr (emoji_warning @ '' Google API error.'')) \<and>
   (main_transcribe env s = Inr t \<longrightarrow>
      t = ''Could not understand audio.'' \<or> t = ''Google API error.'' \<or>
      (\<exists>w. read_audio env s = Inr w \<and> google_result env w = Inr t)) \<and>
   (test_transcribe env s = Inr t \<longrightarrow>
      t = emoji_cross @ '' Could not understand the audio.'' \<or>
      t = emoji_warning @ '' Google API error.'' \<or>
      (\<exists>w. read_audio env s = Inr w \<and> google_result env w = Inr t)) \<and>
   main_transcribe env s \<noteq> Inl (Exn UnknownValueError m') \<and>
   main_transcribe env s \<noteq> Inl (Exn RequestError m') \<and>
   test_transcribe env s \<noteq> Inl (Exn UnknownValueError m') \<and>
   test_transcribe env s \<noteq> Inl (Exn RequestError m')"
proof (intro conjI impI; (elim conjE)?)
  assume "read_audio env s = Inr w" "google_result env w = Inr heard"
  then show "main_transcribe env s = Inr heard" "test_transcribe env s = Inr heard"
    unfolding main_transcribe_def test_transcribe_def by (rule transcribe_heard)+
next
  assume "read_audio env s = Inr w" "google_result env w = Inl (Exn UnknownValueError m)"
  then show "main_transcribe env s = Inr ''Could not understand audio.''"
    "test_transcribe env s = Inr (emoji_cross @ '' Could not understand the audio.'')"
    unfolding main_transcribe_def test_transcribe_def by (rule transcribe_unknown)+
next
  assume "read_audio env s = Inr w" "google_result env w = Inl (Exn RequestError m)"
  then show "main_transcribe env s = Inr ''Google API error.''"
    "test_transcribe env s = Inr (emoji_warning @ '' Google API error.'')"
    unfolding main_transcribe_def test_transcribe_def by (rule transcribe_request)+
next
  assume "main_transcribe env s = Inr t"
  then show "t = ''Could not understand audio.'' \<or> t = ''Google API error.'' \<or>
      (\<exists>w. read_audio env s = Inr w \<and> google_result env w = Inr t)"
    unfolding main_transcribe_def by (rule transcribe_Inr)
next
  assume "test_transcribe env s = Inr t"
  then show "t = emoji_cross @ '' Could not understand the audio.'' \<or>
      t = emoji_warning @ '' Google API error.'' \<or>
      (\<exists>w. read_audio env s = Inr w \<and> google_result env w = Inr t)"
    unfolding test_transcribe_def by (rule transcribe_Inr)
next
  show "main_transcribe env s \<noteq> Inl (Exn UnknownValueError m')"
    "main_transcribe env s \<noteq> Inl (Exn RequestError m')"
    "test_transcribe env s \<noteq> Inl (Exn UnknownValueError m')"
    "test_transcribe env s \<noteq> Inl (Exn RequestError m')"
    unfolding main_transcribe_def test_transcribe_def
    using transcribe_Inl by blast+
qed

theorem transcribe_text_or_sentinel_witness:
  "main_transcribe (example_env\<lparr>google_result := (\<lambda>w. Inl (Exn UnknownValueError []))\<rparr>)
     (main_build\<lparr>files := [AUDIO_FILE \<mapsto> example_wav]\<rparr>) =
     Inr ''Could not understand audio.'' \<and>
   test_transcribe
     (example_env\<lparr>google_result := (\<lambda>w. Inl (Exn RequestError ''recognition request failed''))\<rparr>)
     (test_build\<lparr>files := [AUDIO_FILE \<mapsto> example_wav]\<rparr>) =
     Inr (emoji_warning @ '' Google API error.'') \<and>
   main_transcribe example_env (main_build\<lparr>files := [AUDIO_FILE \<mapsto> example_wav]\<rparr>) =
     Inr ''hello''"
proof -
  let ?s = "main_build\<lparr>files := [AUDIO_FILE \<mapsto> example_wav]\<rparr>"
  let ?s' = "test_build\<lparr>files := [AUDIO_FILE \<mapsto> example_wav]\<rparr>"
  let ?e1 = "example_env\<lparr>google_result := (\<lambda>w. Inl (Exn UnknownValueError []))\<rparr>"
  let ?e2 = "example_env\<lparr>google_result :=
               (\<lambda>w. Inl (Exn RequestError ''recognition request failed''))\<rparr>"
  have r1: "read_audio ?e1 ?s = Inr example_wav"
    and r2: "read_audio ?e2 ?s' = Inr example_wav"
    and r3: "read_audio example_env ?s = Inr example_wav"
    by (simp_all add: read_audio_def example_env_def)
  have g1: "google_result ?e1 example_wav = Inl (Exn UnknownValueError [])"
    and g2: "google_result ?e2 example_wav =
               Inl (Exn RequestError ''recognition request failed'')"
    and g3: "google_result example_env example_wav = Inr ''hello''"
    by (simp_all add: example_env_def)
  have "main_transcribe ?e1 ?s = Inr ''Could not understand audio.''"
    by (rule transcribe_text_or_sentinel [THEN conjunct2, THEN conjunct1, rule_format,
          OF conjI, OF r1 g1, THEN conjunct1])
  moreover have "test_transcribe ?e2 ?s' = Inr (emoji_warning @ '' Google API error.'')"
    by (rule transcribe_text_or_sentinel [THEN conjunct2, THEN conjunct2, THEN conjunct1,
          rule_format, OF conjI, OF r2 g2, THEN conjunct2])
  moreover have "main_transcribe example_env ?s = Inr ''hello''"
    by (rule transcribe_text_or_sentinel [THEN conjunct1, rule_format,
          OF conjI, OF r3 g3, THEN conjunct1])
  ultimately show ?thesis by (intro conjI)
qed

subsection \<open>The recording buffer\<close>

lemma frames_60s: "60 * SAMPLE_RATE = 2646000"
  by (simp add: SAMPLE_RATE_def)

lemma main_start_try_ok:
  assumes "get_monitor_device (devices env) = Inr i" "rec_raises env = None"
  shows "main_start_try env s =
     (None, s\<lparr>label_text := ''[b]'' @ emoji_microphone @ '' Recording Speaker Audio...[/b]'',
               start_disabled := True, stop_disabled := False, gen_disabled := True,
               monitor_device := Some i, stream := Some (main_rec_args i),
               recording := Some (Stereo (map (\<lambda>k. (audio env k 0, audio env k 1))
                                              [0..<2646000]))\<rparr>)"
  using assms by (simp add: main_start_try_def sd_rec_def main_rec_args_def frames_60s)

lemma test_start_recording_ok:
  assumes "rec_raises env = None"
  shows "test_start_recording env s =
     (None, s\<lparr>label_text := ''[b]'' @ emoji_microphone @ '' Recording...[/b]'',
               start_disabled := True, stop_disabled := False, gen_disabled := True,
               stream := Some test_rec_args,
               recording := Some (Col (map (\<lambda>k. audio env k 0) [0..<2646000]))\<rparr>)"
  using assms by (simp add: test_start_recording_def sd_rec_def test_rec_args_def frames_60s)

lemma example_monitor: "get_monitor_device (devices example_env) = Inr 1"
  unfolding example_env_def by code_simp

lemma example_rec: "rec_raises example_env = None"
  by (simp add: example_env_def)

text \<open>
  C6. Whenever \<open>start_recording\<close> gets as far as \<open>sd.rec\<close> and \<open>sd.rec\<close> does not raise
  (in main.py a monitor device was found first), the stream is opened for
  \<open>int(60 * 44100) = 2646000\<close> frames of \<open>float32\<close> at 44100 Hz, and the buffer kept in
  \<open>recording\<close> has exactly 2646000 frames: of two channels in main.py, of one in test.py.
\<close>

theorem start_recording_buffer:
  "(get_monitor_device (devices env) = Inr i \<and> rec_raises env = None \<longrightarrow>
      fst (main_start_recording env s) = None \<and>
      stream (snd (main_start_recording env s)) =
        Some \<lparr>frames = 2646000, samplerate = 44100, channels = 2,
              dtype = ''float32'', device = Some i\<rparr> \<and>
      (\<exists>ps. recording (snd (main_start_recording env s)) = Some (Stereo ps) \<and>
            length ps = 2646000)) \<and>
   (rec_raises env = None \<longrightarrow>
      fst (test_start_recording env s) = None \<and>
      stream (snd (test_start_recording env s)) =
        Some \<lparr>frames = 2646000, samplerate = 44100, channels = 1,
              dtype = ''float32'', device = None\<rparr> \<and>
      (\<exists>xs. recording (snd (test_start_recording env s)) = Some (Col xs) \<and>
            length xs = 2646000))"
  by (simp add: main_start_recording_def main_start_try_ok test_start_recording_ok
        main_rec_args_def test_rec_args_def SAMPLE_RATE_def)

theorem start_recording_buffer_witness:
  "get_monitor_device (devices example_env) = Inr 1 \<and> rec_raises example_env = None \<and>
   fst (main_start_recording example_env main_build) = None \<and>
   stream (snd (main_start_recording example_env main_build)) =
        Some \<lparr>frames = 2646000, samplerate = 44100, channels = 2,
              dtype = ''float32'', device = Some 1\<rparr> \<and>
   stream (snd (test_start_recording example_env test_build)) =
        Some \<lparr>frames = 2646000, samplerate = 44100, channels = 1,
              dtype = ''float32'', device = None\<rparr>"
  using start_recording_buffer [of example_env 1 main_build]
        start_recording_buffer [of example_env 1 test_build]
        example_monitor example_rec
  by simp

subsection \<open>Stopping with no recording\<close>

text \<open>
  C8. In main.py, \<open>stop_recording\<close> with no recording buffer stops the stream and
  returns: no exception, and a state that differs from the one before in the stream
  only, so that the files, the label and the buttons are as they were.
\<close>

theorem main_stop_recording_no_recording:
  "recording s = None \<Longrightarrow> main_stop_recording env s = (None, s\<lparr>stream := None\<rparr>)"
  by (simp add: main_stop_recording_def sd_stop_def)

theorem main_stop_recording_no_recording_witness:
  "recording main_build = None \<and>
   main_stop_recording example_env main_build = (None, main_build\<lparr>stream := None\<rparr>)"
proof -
  have r: "recording main_build = None" by (simp add: main_build_def)
  from main_stop_recording_no_recording [OF r, of example_env] r show ?thesis by simp
qed

subsection \<open>The pipeline\<close>

text \<open>
  C10. After every run of \<open>ai_pipeline\<close>, in both programs, in every environment and
  from every state, whether or not an exception was raised, caught or let through, the
  Generate button is enabled.
\<close>

theorem ai_pipeline_enables_generate:
  "gen_disabled (snd (main_ai_pipeline env s)) = False \<and>
   gen_disabled (snd (test_ai_pipeline env s)) = False"
  by (simp add: main_ai_pipeline_def test_ai_pipeline_def try_except_finally_def
        pipeline_finally_def)

subsection \<open>Conversion to 16 bits\<close>

lemma funpow_max_zero: "(max (0::real) ^^ n) 0 = 0"
  by (induction n) simp_all

lemma np_max_abs_silent:
  "np_max_abs (Col (replicate (Suc n) 0)) = Inr 0"
  "np_max_abs (Flat (replicate (Suc n) 0)) = Inr 0"
  by (simp_all add: np_max_abs_def funpow_max_zero)

lemma test_to_int16_silent:
  "test_to_int16 nf 0 (Col (replicate n 0)) = Col (replicate n nf)"
  by (simp add: test_to_int16_def np_div_def)

lemma main_to_int16_silent:
  "main_to_int16 nf 0 (Flat (replicate n 0)) = Flat (replicate n 0)"
  by (simp add: main_to_int16_def trunc_def)

lemma main_to_int16_finite:
  "main_to_int16 nf m a =
     (if m > 0 then map_nd (\<lambda>x. word_of_int (trunc (x / m * 32767))) a
      else map_nd (\<lambda>x. word_of_int (trunc x)) a)"
  by (simp add: main_to_int16_def np_div_def)

lemma frames_Suc: "(2646000::nat) = Suc 2645999"
  by simp

lemma example_test_started:
  "test_start_recording example_env test_build =
     (None, test_build\<lparr>label_text := ''[b]'' @ emoji_microphone @ '' Recording...[/b]'',
               start_disabled := True, stop_disabled := False, gen_disabled := True,
               stream := Some test_rec_args,
               recording := Some (Col (replicate 2646000 0))\<rparr>)"
proof -
  have "rec_raises example_env = None" by (simp add: example_env_def)
  moreover have "audio example_env = (\<lambda>k c. 0)" by (simp add: example_env_def)
  ultimately show ?thesis
    by (simp add: test_start_recording_def sd_rec_def test_rec_args_def SAMPLE_RATE_def
        map_replicate_const)
qed

lemma np_max_abs_2646000:
  "np_max_abs (Col (replicate 2646000 0)) = Inr 0"
  "np_max_abs (Flat (replicate 2646000 0)) = Inr 0"
  unfolding frames_Suc by (rule np_max_abs_silent)+

lemma example_test_stopped:
  "test_stop_recording example_env (snd (test_start_recording example_env test_build)) =
     (None, test_build\<lparr>label_text := ''[b]'' @ emoji_check @ '' Recording saved.[/b]'' @ nl @
                                      ''Tap Generate.'',
               start_disabled := False, stop_disabled := True, gen_disabled := False,
               stream := None,
               recording := Some (Col (replicate 2646000 0)),
               files := [AUDIO_FILE \<mapsto>
                 \<lparr>wav_rate = 44100, wav_channels = 1, wav_bits = 16, wav_format = PCM,
                  wav_samples = replicate 2646000 (nonfinite_int16 example_env)\<rparr>]\<rparr>)"
proof -
  have e: "write_raises example_env = None"
    by (simp add: example_env_def)
  have f: "files test_build = Map.empty" by (simp add: test_build_def)
  show ?thesis
    by (simp add: example_test_started test_stop_recording_def sd_stop_def
        np_max_abs_2646000 e f test_to_int16_silent wavfile_write_def SAMPLE_RATE_def)
qed

text \<open>
  C1, for test.py. A session in the example environment, whose signal is silent: the
  buffer holds 2646000 zeros, its peak is 0, \<open>stop_recording\<close> divides every sample by
  that peak, and \<open>0/0\<close> is \<open>nan\<close>, so that every sample of the file written is
  whatever the platform's cast makes of \<open>nan\<close>. main.py tests \<open>max_val > 0\<close> before it
  divides (\<open>main_to_int16_finite\<close>, \<open>main_to_int16_silent\<close>); test.py does not.
\<close>

theorem test_stop_recording_zero_peak:
  "recording (snd (test_start_recording example_env test_build)) =
     Some (Col (replicate 2646000 0)) \<and>
   np_max_abs (Col (replicate 2646000 0)) = Inr 0 \<and>
   np_div 0 0 = NaN \<and>
   test_to_int16 (nonfinite_int16 example_env) 0 (Col (replicate 2646000 0)) =
     Col (replicate 2646000 (nonfinite_int16 example_env)) \<and>
   files (snd (test_stop_recording example_env
                 (snd (test_start_recording example_env test_build)))) AUDIO_FILE =
     Some \<lparr>wav_rate = 44100, wav_channels = 1, wav_bits = 16, wav_format = PCM,
           wav_samples = replicate 2646000 (nonfinite_int16 example_env)\<rparr>"
proof (intro conjI)
  show "recording (snd (test_start_recording example_env test_build)) =
          Some (Col (replicate 2646000 0))"
    by (simp add: example_test_started)
  show "np_max_abs (Col (replicate 2646000 0)) = Inr 0"
    by (rule np_max_abs_2646000)
  show "np_div 0 0 = NaN"
    by (simp add: np_div_def)
  show "test_to_int16 (nonfinite_int16 example_env) 0 (Col (replicate 2646000 0)) =
          Col (replicate 2646000 (nonfinite_int16 example_env))"
    by (rule test_to_int16_silent)
  show "files (snd (test_stop_recording example_env
                 (snd (test_start_recording example_env test_build)))) AUDIO_FILE =
     Some \<lparr>wav_rate = 44100, wav_channels = 1, wav_bits = 16, wav_format = PCM,
           wav_samples = replicate 2646000 (nonfinite_int16 example_env)\<rparr>"
    by (simp add: example_test_stopped)
qed

subsection \<open>The wave file written\<close>

lemma mono_reduction:
  "\<exists>xs. (if ndim r = 2 then mean_axis1 r else r) = Flat xs \<and> length xs = n_frames r"
  by (cases r) simp_all

lemma n_columns_map_nd: "n_columns (map_nd f a) = n_columns a"
  by (cases a) simp_all

lemma n_columns_main_to_int16: "n_columns (main_to_int16 nf m a) = n_columns a"
  by (simp add: main_to_int16_def n_columns_map_nd)

lemma elems_main_to_int16_Flat: "length (elems (main_to_int16 nf m (Flat xs))) = length xs"
  by (simp add: main_to_int16_def)

lemma main_stop_recording_Some:
  assumes "recording s = Some r"
  shows "main_stop_recording env s =
     (let r1 = (if ndim r = 2 then mean_axis1 r else r);
          s1 = s\<lparr>stream := None, recording := Some r1\<rparr>
      in case np_max_abs r1 of
           Inl e \<Rightarrow> (Some e, s1)
         | Inr m \<Rightarrow>
             (case write_raises env of
                Some e \<Rightarrow> (Some e, s1)
              | None \<Rightarrow>
                  (None, s1\<lparr>files := (files s)(AUDIO_FILE \<mapsto>
                               \<lparr>wav_rate = 44100, wav_channels = 1, wav_bits = 16,
                                wav_format = PCM,
                                wav_samples = elems (main_to_int16 (nonfinite_int16 env) m r1)\<rparr>),
                            label_text := ''[b]'' @ emoji_check @
                               '' Speaker Recording Saved[/b]'' @ nl @ ''Click Generate.'',
                            stop_disabled := True, gen_disabled := False,
                            start_disabled := False\<rparr>)))"
proof -
  obtain xs where r1: "(if ndim r = 2 then mean_axis1 r else r) = Flat xs"
    using mono_reduction [of r] by blast
  show ?thesis
    using assms
    by (simp add: main_stop_recording_def sd_stop_def Let_def r1 wavfile_write_def
        n_columns_main_to_int16 SAMPLE_RATE_def split: sum.splits option.splits)
qed

lemma test_stop_recording_Col:
  assumes "recording s = Some (Col xs)"
  shows "test_stop_recording env s =
     (let s0 = s\<lparr>stream := None\<rparr>
      in case np_max_abs (Col xs) of
           Inl e \<Rightarrow> (Some e, s0)
         | Inr m \<Rightarrow>
             (case write_raises env of
                Some e \<Rightarrow> (Some e, s0)
              | None \<Rightarrow>
                  (None, s0\<lparr>files := (files s)(AUDIO_FILE \<mapsto>
                               \<lparr>wav_rate = 44100, wav_channels = 1, wav_bits = 16,
                                wav_format = PCM,
                                wav_samples =
                                  elems (test_to_int16 (nonfinite_int16 env) m (Col xs))\<rparr>),
                            label_text := ''[b]'' @ emoji_check @
                               '' Recording saved.[/b]'' @ nl @ ''Tap Generate.'',
                            stop_disabled := True, gen_disabled := False,
                            start_disabled := False\<rparr>)))"
  using assms
  by (simp add: test_stop_recording_def sd_stop_def Let_def wavfile_write_def
      test_to_int16_def SAMPLE_RATE_def split: sum.splits option.splits)

lemma recording_test_start:
  "recording (snd (test_start_recording env s)) = recording s \<or>
   (\<exists>xs. recording (snd (test_start_recording env s)) = Some (Col xs))"
  by (cases "rec_raises env")
     (simp_all add: test_start_recording_def sd_rec_def test_rec_args_def Let_def)

lemma recording_test_stop:
  "recording (snd (test_stop_recording env s)) = recording s"
  by (simp add: test_stop_recording_def sd_stop_def Let_def
      split: option.splits sum.splits)

lemma recording_call_llama:
  "recording (snd (call_llama sc env t s)) = recording s"
  by (simp add: call_llama_def Let_def split: http_result.splits option.splits sum.splits)

lemma recording_pipeline_except:
  "recording (snd (pipeline_except e s)) = recording s"
  by (simp add: pipeline_except_def)

lemma recording_try_except_finally:
  "recording (snd (try_except_finally r)) = recording (snd r)"
  by (cases r) (simp add: try_except_finally_def pipeline_finally_def
      recording_pipeline_except split: option.splits)

lemma recording_test_pipeline:
  "recording (snd (test_ai_pipeline env s)) = recording s"
  by (simp add: test_ai_pipeline_def recording_try_except_finally test_pipeline_try_def
      test_call_llama_def recording_call_llama split: sum.splits prod.splits)
     (metis recording_call_llama snd_conv)

lemma test_reachable_recording:
  "test_reachable s \<Longrightarrow> recording s = None \<or> (\<exists>xs. recording s = Some (Col xs))"
proof (induction rule: test_reachable.induct)
  case built
  show ?case by (simp add: test_build_def)
next
  case (started s env)
  with recording_test_start [of env s] show ?case by auto
next
  case (stopped s env)
  then show ?case by (simp add: recording_test_stop)
next
  case (pressed s)
  then show ?case by (simp add: test_generate_response_def)
next
  case (piped s env)
  then show ?case by (simp add: recording_test_pipeline)
qed

lemma example_main_stopped:
  "main_stop_recording example_env
     (main_build\<lparr>recording := Some (Stereo [(1/2, 1/2), (-1, 0)])\<rparr>) =
   (None, main_build\<lparr>recording := Some (Flat [1/2, -1/2]),
            files := [AUDIO_FILE \<mapsto>
               \<lparr>wav_rate = 44100, wav_channels = 1, wav_bits = 16, wav_format = PCM,
                wav_samples = [32767, - 32767]\<rparr>],
            label_text := ''[b]'' @ emoji_check @
                               '' Speaker Recording Saved[/b]'' @ nl @ ''Click Generate.'',
            stop_disabled := True, gen_disabled := False, start_disabled := False\<rparr>)"
proof -
  have r: "recording (main_build\<lparr>recording := Some (Stereo [(1/2, 1/2), (-1, 0)])\<rparr>) =
             Some (Stereo [(1/2, 1/2), (-1, 0)])"
    by simp
  have e: "write_raises example_env = None" by (simp add: example_env_def)
  have m: "np_max_abs (Flat [1/2, - (1/2)]) = Inr (1/2)"
    by (simp add: np_max_abs_def)
  have c: "main_to_int16 nf (1/2) (Flat [1/2, - (1/2)]) = Flat [32767, - 32767]" for nf
    by (simp add: main_to_int16_def np_div_def trunc_def)
  show ?thesis
    unfolding main_stop_recording_Some [OF r]
    by (simp add: Let_def m e c main_build_def)
qed

text \<open>
  C5. When \<open>stop_recording\<close> writes, the file \<open>answer.wav\<close> is replaced by a wave file of
  one channel, 16-bit PCM, at 44100 Hz, whatever it held before: in main.py for a buffer
  of any shape, with one sample per frame, and for a stereo buffer the samples are the
  16-bit conversion of the per-frame means of the two channels, which also replace the
  buffer; in test.py in every state the program can reach.
\<close>

theorem stop_recording_wave_file:
  "(recording s = Some r \<and> main_stop_recording env s = (None, s') \<longrightarrow>
      (\<exists>smp. files s' = (files s)(AUDIO_FILE \<mapsto>
                 \<lparr>wav_rate = 44100, wav_channels = 1, wav_bits = 16, wav_format = PCM,
                  wav_samples = smp\<rparr>) \<and>
             length smp = n_frames r)) \<and>
   (recording s = Some (Stereo ps) \<and> main_stop_recording env s = (None, s') \<longrightarrow>
      (\<exists>m. np_max_abs (Flat (map (\<lambda>(l, r). (l + r) / 2) ps)) = Inr m \<and>
           recording s' = Some (Flat (map (\<lambda>(l, r). (l + r) / 2) ps)) \<and>
           (\<exists>w. files s' AUDIO_FILE = Some w \<and>
                wav_samples w =
                  elems (main_to_int16 (nonfinite_int16 env) m
                           (Flat (map (\<lambda>(l, r). (l + r) / 2) ps)))))) \<and>
   (test_reachable s \<and> test_stop_recording env s = (None, s') \<longrightarrow>
      (\<exists>smp. files s' = (files s)(AUDIO_FILE \<mapsto>
                 \<lparr>wav_rate = 44100, wav_channels = 1, wav_bits = 16, wav_format = PCM,
                  wav_samples = smp\<rparr>)))"
proof (intro conjI impI; elim conjE)
  assume r: "recording s = Some r" and ok: "main_stop_recording env s = (None, s')"
  obtain xs where r1: "(if ndim r = 2 then mean_axis1 r else r) = Flat xs"
      and len: "length xs = n_frames r"
    using mono_reduction [of r] by blast
  from ok show "\<exists>smp. files s' = (files s)(AUDIO_FILE \<mapsto>
                 \<lparr>wav_rate = 44100, wav_channels = 1, wav_bits = 16, wav_format = PCM,
                  wav_samples = smp\<rparr>) \<and> length smp = n_frames r"
    unfolding main_stop_recording_Some [OF r] Let_def r1
    by (auto simp: elems_main_to_int16_Flat len split: sum.splits option.splits)
next
  assume r: "recording s = Some (Stereo ps)" and ok: "main_stop_recording env s = (None, s')"
  from ok show "\<exists>m. np_max_abs (Flat (map (\<lambda>(l, r). (l + r) / 2) ps)) = Inr m \<and>
           recording s' = Some (Flat (map (\<lambda>(l, r). (l + r) / 2) ps)) \<and>
           (\<exists>w. files s' AUDIO_FILE = Some w \<and>
                wav_samples w =
                  elems (main_to_int16 (nonfinite_int16 env) m
                           (Flat (map (\<lambda>(l, r). (l + r) / 2) ps))))"
    unfolding main_stop_recording_Some [OF r] Let_def
    by (auto split: sum.splits option.splits)
next
  assume reach: "test_reachable s" and ok: "test_stop_recording env s = (None, s')"
  have "recording s \<noteq> None"
  proof
    assume "recording s = None"
    then have "fst (test_stop_recording env s) \<noteq> None"
      by (simp add: test_stop_recording_def sd_stop_def Let_def)
    with ok show False by simp
  qed
  with test_reachable_recording [OF reach] obtain xs where r: "recording s = Some (Col xs)"
    by blast
  from ok show "\<exists>smp. files s' = (files s)(AUDIO_FILE \<mapsto>
                 \<lparr>wav_rate = 44100, wav_channels = 1, wav_bits = 16, wav_format = PCM,
                  wav_samples = smp\<rparr>)"
    unfolding test_stop_recording_Col [OF r] Let_def
    by (auto split: sum.splits option.splits)
qed

theorem stop_recording_wave_file_witness:
  "recording (main_build\<lparr>recording := Some (Stereo [(1/2, 1/2), (-1, 0)])\<rparr>) =
     Some (Stereo [(1/2, 1/2), (-1, 0)]) \<and>
   fst (main_stop_recording example_env
          (main_build\<lparr>recording := Some (Stereo [(1/2, 1/2), (-1, 0)])\<rparr>)) = None \<and>
   files (snd (main_stop_recording example_env
          (main_build\<lparr>recording := Some (Stereo [(1/2, 1/2), (-1, 0)])\<rparr>))) AUDIO_FILE =
     Some \<lparr>wav_rate = 44100, wav_channels = 1, wav_bits = 16, wav_format = PCM,
           wav_samples = [32767, - 32767]\<rparr> \<and>
   test_reachable (snd (test_start_recording example_env test_build)) \<and>
   fst (test_stop_recording example_env (snd (test_start_recording example_env test_build))) =
     None \<and>
   (\<exists>smp. files (snd (test_stop_recording example_env
                       (snd (test_start_recording example_env test_build)))) AUDIO_FILE =
      Some \<lparr>wav_rate = 44100, wav_channels = 1, wav_bits = 16, wav_format = PCM,
            wav_samples = smp\<rparr>)"
proof -
  let ?s = "main_build\<lparr>recording := Some (Stereo [(1/2, 1/2), (-1, 0)])\<rparr>"
  let ?t = "snd (test_start_recording example_env test_build)"
  have reach: "test_reachable ?t"
    by (rule test_reachable.started [OF test_reachable.built])
  have r: "recording ?s = Some (Stereo [(1/2, 1/2), (-1, 0)])" by simp
  have m: "main_stop_recording example_env ?s =
             (None, snd (main_stop_recording example_env ?s))"
    by (simp add: example_main_stopped)
  have t: "test_stop_recording example_env ?t =
             (None, snd (test_stop_recording example_env ?t))"
    by (simp add: example_test_stopped)
  from stop_recording_wave_file
         [of ?s "Stereo [(1/2, 1/2), (-1, 0)]" example_env
             "snd (main_stop_recording example_env ?s)" "[(1/2, 1/2), (-1, 0)]"] r m
  have "\<exists>smp. files (snd (main_stop_recording example_env ?s)) =
          (files ?s)(AUDIO_FILE \<mapsto>
             \<lparr>wav_rate = 44100, wav_channels = 1, wav_bits = 16, wav_format = PCM,
              wav_samples = smp\<rparr>) \<and> length smp = n_frames (Stereo [(1/2, 1/2), (-1 :: real, 0)])"
    by blast
  moreover
  from stop_recording_wave_file
         [of ?t _ example_env "snd (test_stop_recording example_env ?t)"] reach t
  have "\<exists>smp. files (snd (test_stop_recording example_env ?t)) =
          (files ?t)(AUDIO_FILE \<mapsto>
             \<lparr>wav_rate = 44100, wav_channels = 1, wav_bits = 16, wav_format = PCM,
              wav_samples = smp\<rparr>)"
    by blast
  then have "\<exists>smp. files (snd (test_stop_recording example_env ?t)) AUDIO_FILE =
      Some \<lparr>wav_rate = 44100, wav_channels = 1, wav_bits = 16, wav_format = PCM,
            wav_samples = smp\<rparr>"
    by auto
  moreover have "files (snd (main_stop_recording example_env ?s)) AUDIO_FILE =
     Some \<lparr>wav_rate = 44100, wav_channels = 1, wav_bits = 16, wav_format = PCM,
           wav_samples = [32767, - 32767]\<rparr>"
    by (simp add: example_main_stopped)
  moreover have "fst (main_stop_recording example_env ?s) = None"
    by (simp add: example_main_stopped)
  moreover have "fst (test_stop_recording example_env ?t) = None"
    by (simp add: example_test_stopped)
  moreover note r reach
  ultimately show ?thesis
    by - (intro conjI; assumption)
qed

subsection \<open>The request to the chat server\<close>

lemma call_llama_log:
  "http_log (snd (call_llama sc env t s)) = http_log s @ [(OLLAMA_URL, payload sc t)]"
  by (simp add: call_llama_def Let_def split: http_result.splits option.splits sum.splits)

lemma call_llama_state:
  "snd (call_llama sc env t s) = s\<lparr>http_log := http_log s @ [(OLLAMA_URL, payload sc t)]\<rparr>"
  by (simp add: call_llama_def Let_def split: http_result.splits option.splits sum.splits)

lemma call_llama_Inr:
  "fst (call_llama sc env t s) = Inr v \<longleftrightarrow>
     (\<exists>r j m. server_reply env OLLAMA_URL (payload sc t) = Response r \<and>
              raise_for_status r = None \<and> json_body r = Inr j \<and>
              py_getitem env j ''message'' = Inr m \<and>
              py_getitem env m ''content'' = Inr v)"
  by (auto simp: call_llama_def Let_def split: http_result.splits option.splits sum.splits)

lemma py_getitem_JObj:
  "py_getitem env j k = Inr v \<longleftrightarrow> (\<exists>kvs. j = JObj kvs \<and> map_of kvs k = Some v)"
  by (cases j) (auto split: option.splits)

lemma payload_explicit:
  "payload sc t =
     JObj [(''model'', JStr ''phi3:mini''),
           (''messages'',
              JArr [JObj [(''role'', JStr ''system''), (''content'', JStr sc)],
                    JObj [(''role'', JStr ''user''), (''content'', JStr t)]]),
           (''stream'', JBool False),
           (''options'', JObj [(''num_predict'', JNum 150)])]"
  by (simp add: payload_def)

lemma example_main_call_llama:
  "main_call_llama example_env ''hello'' main_build =
     (Inr (JStr ''hi''),
      main_build\<lparr>http_log := [(OLLAMA_URL, payload main_system_content ''hello'')]\<rparr>)"
  by (simp add: main_call_llama_def call_llama_def Let_def example_env_def
      raise_for_status_def main_build_def)

text \<open>
  C7, as the claim states it: the body would hold the model name, the message list and
  the generation cap, and nothing else. The body \<open>call_llama\<close> sends has a fourth member,
  \<open>"stream": false\<close>.
\<close>

theorem call_llama_body_has_stream:
  "map fst (members (snd (last (http_log
      (snd (main_call_llama example_env ''hello'' main_build)))))) =
     [''model'', ''messages'', ''stream'', ''options''] \<and>
   map_of (members (snd (last (http_log
      (snd (main_call_llama example_env ''hello'' main_build)))))) ''stream'' =
     Some (JBool False)"
  by (simp add: example_main_call_llama payload_def)

text \<open>
  C7, amended. In both programs \<open>call_llama\<close> sends one POST to
  \<open>http://localhost:11434/api/chat\<close> whose JSON body has exactly four members: the model
  name \<open>phi3:mini\<close>, a list of two messages (a system message, and a user message whose
  content is the transcript), \<open>"stream": false\<close>, and the options with
  \<open>num_predict = 150\<close>. It returns a value exactly when the server answers with a
  status that is no error and a JSON object whose member \<open>message\<close> is an object with a
  member \<open>content\<close>, and the value is that member.
\<close>

theorem call_llama_request_and_result:
  "http_log (snd (main_call_llama env t s)) =
     http_log s @
     [(''http://localhost:11434/api/chat'',
       JObj [(''model'', JStr ''phi3:mini''),
             (''messages'',
                JArr [JObj [(''role'', JStr ''system''),
                            (''content'', JStr main_system_content)],
                      JObj [(''role'', JStr ''user''), (''content'', JStr t)]]),
             (''stream'', JBool False),
             (''options'', JObj [(''num_predict'', JNum 150)])])] \<and>
   http_log (snd (test_call_llama env t s)) =
     http_log s @
     [(''http://localhost:11434/api/chat'',
       JObj [(''model'', JStr ''phi3:mini''),
             (''messages'',
                JArr [JObj [(''role'', JStr ''system''),
                            (''content'', JStr test_system_content)],
                      JObj [(''role'', JStr ''user''), (''content'', JStr t)]]),
             (''stream'', JBool False),
             (''options'', JObj [(''num_predict'', JNum 150)])])] \<and>
   (fst (main_call_llama env t s) = Inr v \<longleftrightarrow>
      (\<exists>r kvs kvs'.
          server_reply env OLLAMA_URL (payload main_system_content t) = Response r \<and>
          raise_for_status r = None \<and> json_body r = Inr (JObj kvs) \<and>
          map_of kvs ''message'' = Some (JObj kvs') \<and> map_of kvs' ''content'' = Some v)) \<and>
   (fst (test_call_llama env t s) = Inr v \<longleftrightarrow>
      (\<exists>r kvs kvs'.
          server_reply env OLLAMA_URL (payload test_system_content t) = Response r \<and>
          raise_for_status r = None \<and> json_body r = Inr (JObj kvs) \<and>
          map_of kvs ''message'' = Some (JObj kvs') \<and> map_of kvs' ''content'' = Some v))"
proof (intro conjI)
  show "http_log (snd (main_call_llama env t s)) =
     http_log s @
     [(''http://localhost:11434/api/chat'',
       JObj [(''model'', JStr ''phi3:mini''),
             (''messages'',
                JArr [JObj [(''role'', JStr ''system''),
                            (''content'', JStr main_system_content)],
                      JObj [(''role'', JStr ''user''), (''content'', JStr t)]]),
             (''stream'', JBool False),
             (''options'', JObj [(''num_predict'', JNum 150)])])]"
    unfolding main_call_llama_def call_llama_log payload_explicit
    by (simp add: OLLAMA_URL_def)
  show "http_log (snd (test_call_llama env t s)) =
     http_log s @
     [(''http://localhost:11434/api/chat'',
       JObj [(''model'', JStr ''phi3:mini''),
             (''messages'',
                JArr [JObj [(''role'', JStr ''system''),
                            (''content'', JStr test_system_content)],
                      JObj [(''role'', JStr ''user''), (''content'', JStr t)]]),
             (''stream'', JBool False),
             (''options'', JObj [(''num_predict'', JNum 150)])])]"
    unfolding test_call_llama_def call_llama_log payload_explicit
    by (simp add: OLLAMA_URL_def)
  show "fst (main_call_llama env t s) = Inr v \<longleftrightarrow>
      (\<exists>r kvs kvs'.
          server_reply env OLLAMA_URL (payload main_system_content t) = Response r \<and>
          raise_for_status r = None \<and> json_body r = Inr (JObj kvs) \<and>
          map_of kvs ''message'' = Some (JObj kvs') \<and> map_of kvs' ''content'' = Some v)"
    unfolding main_call_llama_def call_llama_Inr py_getitem_JObj by blast
  show "fst (test_call_llama env t s) = Inr v \<longleftrightarrow>
      (\<exists>r kvs kvs'.
          server_reply env OLLAMA_URL (payload test_system_content t) = Response r \<and>
          raise_for_status r = None \<and> json_body r = Inr (JObj kvs) \<and>
          map_of kvs ''message'' = Some (JObj kvs') \<and> map_of kvs' ''content'' = Some v)"
    unfolding test_call_llama_def call_llama_Inr py_getitem_JObj by blast
qed

theorem call_llama_request_and_result_witness:
  "fst (main_call_llama example_env ''hello'' main_build) = Inr (JStr ''hi'') \<and>
   fst (test_call_llama example_env ''hello'' test_build) = Inr (JStr ''hi'')"
proof -
  let ?r = "\<lparr>status_code = 200, status_text = [],
          json_body = Inr (JObj [(''model'', JStr ''phi3:mini''),
                                 (''message'', JObj [(''role'', JStr ''assistant''),
                                                     (''content'', JStr ''hi'')]),
                                 (''done'', JBool True)])\<rparr>"
  have s: "server_reply example_env url body = Response ?r" for url body
    by (simp add: example_env_def)
  have "\<exists>r kvs kvs'.
          server_reply example_env OLLAMA_URL (payload sc ''hello'') = Response r \<and>
          raise_for_status r = None \<and> json_body r = Inr (JObj kvs) \<and>
          map_of kvs ''message'' = Some (JObj kvs') \<and>
          map_of kvs' ''content'' = Some (JStr ''hi'')" for sc
    unfolding s by (simp add: raise_for_status_def)
  then show ?thesis
    using call_llama_request_and_result [of example_env "''hello''" main_build "JStr ''hi''"]
          call_llama_request_and_result [of example_env "''hello''" test_build "JStr ''hi''"]
    by blast
qed

subsection \<open>What the pipeline sends and shows\<close>

lemma pipeline_try_log:
  "http_log (snd (try_except_finally r)) = http_log (snd r)"
  "label_text (snd (try_except_finally (None, s'))) = label_text s'"
  "fst (try_except_finally (None, s')) = None"
  by (cases r; simp add: try_except_finally_def pipeline_finally_def pipeline_except_def
        split: option.splits)+

lemma main_pipeline_try_Inr:
  "main_transcribe env s = Inr t \<Longrightarrow>
   main_pipeline_try env s =
     (case fst (main_call_llama env t s) of
        Inl e \<Rightarrow> (Some e, s\<lparr>http_log := http_log s @ [(OLLAMA_URL, payload main_system_content t)]\<rparr>)
      | Inr fb \<Rightarrow>
          (None, s\<lparr>http_log := http_log s @ [(OLLAMA_URL, payload main_system_content t)],
                    label_text := main_answer_text t (format_value env fb)\<rparr>))"
  using call_llama_state [of main_system_content env t s]
  by (cases "main_call_llama env t s")
     (simp add: main_pipeline_try_def main_call_llama_def split: sum.splits)

lemma test_pipeline_try_Inr:
  "test_transcribe env s = Inr t \<Longrightarrow>
   test_pipeline_try env s =
     (case fst (test_call_llama env t s) of
        Inl e \<Rightarrow> (Some e, s\<lparr>http_log := http_log s @ [(OLLAMA_URL, payload test_system_content t)]\<rparr>)
      | Inr fb \<Rightarrow>
          (None, s\<lparr>http_log := http_log s @ [(OLLAMA_URL, payload test_system_content t)],
                    label_text := test_answer_text t (format_value env fb)\<rparr>))"
  using call_llama_state [of test_system_content env t s]
  by (cases "test_call_llama env t s")
     (simp add: test_pipeline_try_def test_call_llama_def split: sum.splits)

lemma main_pipeline_sends:
  "main_transcribe env s = Inr t \<Longrightarrow>
   http_log (snd (main_ai_pipeline env s)) =
     http_log s @ [(OLLAMA_URL, payload main_system_content t)]"
  by (simp add: main_ai_pipeline_def pipeline_try_log main_pipeline_try_Inr split: sum.splits)

lemma test_pipeline_sends:
  "test_transcribe env s = Inr t \<Longrightarrow>
   http_log (snd (test_ai_pipeline env s)) =
     http_log s @ [(OLLAMA_URL, payload test_system_content t)]"
  by (simp add: test_ai_pipeline_def pipeline_try_log test_pipeline_try_Inr split: sum.splits)

lemma main_pipeline_shows:
  "main_transcribe env s = Inr t \<Longrightarrow> fst (main_call_llama env t s) = Inr fb \<Longrightarrow>
   fst (main_ai_pipeline env s) = None \<and>
   label_text (snd (main_ai_pipeline env s)) = main_answer_text t (format_value env fb)"
  by (simp add: main_ai_pipeline_def pipeline_try_log main_pipeline_try_Inr)

lemma test_pipeline_shows:
  "test_transcribe env s = Inr t \<Longrightarrow> fst (test_call_llama env t s) = Inr fb \<Longrightarrow>
   fst (test_ai_pipeline env s) = None \<and>
   label_text (snd (test_ai_pipeline env s)) = test_answer_text t (format_value env fb)"
  by (simp add: test_ai_pipeline_def pipeline_try_log test_pipeline_try_Inr)

lemma main_answer_text_explicit:
  "main_answer_text t f =
          ''[b]'' @ [CHR 0xF0, CHR 0x9F, CHR 0x8E, CHR 0xA4] @ '' Interviewer Said:[/b]'' @ [CHR 0x0A] @
          t @ [CHR 0x0A, CHR 0x0A] @
          ''[b]'' @ [CHR 0xF0, CHR 0x9F, CHR 0xA4, CHR 0x96] @ '' Suggested Answer:[/b]'' @ [CHR 0x0A] @
          f"
  by (simp add: main_answer_text_def emoji_mic_def emoji_robot_def nl_def)

lemma test_answer_text_explicit:
  "test_answer_text t f =
          ''[b] Interviewer Say:[/b]'' @ [CHR 0x0A] @
          t @ [CHR 0x0A, CHR 0x0A] @
          ''[b]'' @ [CHR 0xF0, CHR 0x9F, CHR 0xA4, CHR 0x96] @ '' Generated Answer:[/b]'' @ [CHR 0x0A] @
          f"
  by (simp add: test_answer_text_def emoji_robot_def nl_def)

lemma request_explicit:
  "(OLLAMA_URL, payload sc t) =
         (''http://localhost:11434/api/chat'',
          JObj [(''model'', JStr ''phi3:mini''),
                (''messages'',
                   JArr [JObj [(''role'', JStr ''system''), (''content'', JStr sc)],
                         JObj [(''role'', JStr ''user''), (''content'', JStr t)]]),
                (''stream'', JBool False),
                (''options'', JObj [(''num_predict'', JNum 150)])])"
  by (simp add: OLLAMA_URL_def payload_def)

lemma test_sentinels_explicit:
  "emoji_cross @ '' Could not understand the audio.'' =
     [CHR 0xE2, CHR 0x9D, CHR 0x8C] @ '' Could not understand the audio.''"
  "emoji_warning @ '' Google API error.'' =
     [CHR 0xE2, CHR 0x9A, CHR 0xA0, CHR 0xEF, CHR 0xB8, CHR 0x8F] @ '' Google API error.''"
  by (simp_all add: emoji_cross_def emoji_warning_def)

lemma main_pipeline_label:
  assumes "main_transcribe env s = Inr t" "fst (main_call_llama env t s) = Inr fb"
  shows "fst (main_ai_pipeline env s) = None"
    and "label_text (snd (main_ai_pipeline env s)) =
          ''[b]'' @ [CHR 0xF0, CHR 0x9F, CHR 0x8E, CHR 0xA4] @ '' Interviewer Said:[/b]'' @ [CHR 0x0A] @
          t @ [CHR 0x0A, CHR 0x0A] @
          ''[b]'' @ [CHR 0xF0, CHR 0x9F, CHR 0xA4, CHR 0x96] @ '' Suggested Answer:[/b]'' @ [CHR 0x0A] @
          format_value env fb"
  using main_pipeline_shows [OF assms] by (simp_all only: main_answer_text_explicit)

lemma test_pipeline_label:
  assumes "test_transcribe env s = Inr t" "fst (test_call_llama env t s) = Inr fb"
  shows "fst (test_ai_pipeline env s) = None"
    and "label_text (snd (test_ai_pipeline env s)) =
          ''[b] Interviewer Say:[/b]'' @ [CHR 0x0A] @
          t @ [CHR 0x0A, CHR 0x0A] @
          ''[b]'' @ [CHR 0xF0, CHR 0x9F, CHR 0xA4, CHR 0x96] @ '' Generated Answer:[/b]'' @ [CHR 0x0A] @
          format_value env fb"
  using test_pipeline_shows [OF assms] by (simp_all only: test_answer_text_explicit)

lemma main_pipeline_request:
  assumes "main_transcribe env s = Inr t"
  shows "http_log (snd (main_ai_pipeline env s)) =
        http_log s @
        [(''http://localhost:11434/api/chat'',
          JObj [(''model'', JStr ''phi3:mini''),
                (''messages'',
                   JArr [JObj [(''role'', JStr ''system''), (''content'', JStr main_system_content)],
                         JObj [(''role'', JStr ''user''), (''content'', JStr t)]]),
                (''stream'', JBool False),
                (''options'', JObj [(''num_predict'', JNum 150)])])]"
    and "last (http_log (snd (main_ai_pipeline env s))) =
         (''http://localhost:11434/api/chat'',
          JObj [(''model'', JStr ''phi3:mini''),
                (''messages'',
                   JArr [JObj [(''role'', JStr ''system''), (''content'', JStr main_system_content)],
                         JObj [(''role'', JStr ''user''), (''content'', JStr t)]]),
                (''stream'', JBool False),
                (''options'', JObj [(''num_predict'', JNum 150)])])"
  using main_pipeline_sends [OF assms] by (simp_all only: request_explicit last_snoc)

lemma test_pipeline_request:
  assumes "test_transcribe env s = Inr t"
  shows "http_log (snd (test_ai_pipeline env s)) =
        http_log s @
        [(''http://localhost:11434/api/chat'',
          JObj [(''model'', JStr ''phi3:mini''),
                (''messages'',
                   JArr [JObj [(''role'', JStr ''system''), (''content'', JStr test_system_content)],
                         JObj [(''role'', JStr ''user''), (''content'', JStr t)]]),
                (''stream'', JBool False),
                (''options'', JObj [(''num_predict'', JNum 150)])])]"
    and "last (http_log (snd (test_ai_pipeline env s))) =
         (''http://localhost:11434/api/chat'',
          JObj [(''model'', JStr ''phi3:mini''),
                (''messages'',
                   JArr [JObj [(''role'', JStr ''system''), (''content'', JStr test_system_content)],
                         JObj [(''role'', JStr ''user''), (''content'', JStr t)]]),
                (''stream'', JBool False),
                (''options'', JObj [(''num_predict'', JNum 150)])])"
  using test_pipeline_sends [OF assms] by (simp_all only: request_explicit last_snoc)

text \<open>
  C9. In both programs \<open>ai_pipeline\<close> sends whatever \<open>transcribe\<close> returned as the
  content of the user message, with no test of it; when the model answers, no exception
  leaves the pipeline and the label holds, after the heading for what the interviewer
  said, the transcript, and after the heading for the answer, the answer (as it is when
  it is a string). So when the recognizer raises \<open>UnknownValueError\<close> or \<open>RequestError\<close>,
  the content of the user message sent to the model is the fixed text \<open>transcribe\<close>
  returns in its place, and the label shows that text and the model's answer to it.
\<close>

theorem ai_pipeline_sends_transcript:
  "(main_transcribe env s = Inr t \<longrightarrow>
      http_log (snd (main_ai_pipeline env s)) =
        http_log s @
        [(''http://localhost:11434/api/chat'',
          JObj [(''model'', JStr ''phi3:mini''),
                (''messages'',
                   JArr [JObj [(''role'', JStr ''system''), (''content'', JStr main_system_content)],
                         JObj [(''role'', JStr ''user''), (''content'', JStr t)]]),
                (''stream'', JBool False),
                (''options'', JObj [(''num_predict'', JNum 150)])])]) \<and>
   (main_transcribe env s = Inr t \<and> fst (main_call_llama env t s) = Inr fb \<longrightarrow>
      fst (main_ai_pipeline env s) = None \<and>
      label_text (snd (main_ai_pipeline env s)) =
          ''[b]'' @ [CHR 0xF0, CHR 0x9F, CHR 0x8E, CHR 0xA4] @ '' Interviewer Said:[/b]'' @ [CHR 0x0A] @
          t @ [CHR 0x0A, CHR 0x0A] @
          ''[b]'' @ [CHR 0xF0, CHR 0x9F, CHR 0xA4, CHR 0x96] @ '' Suggested Answer:[/b]'' @ [CHR 0x0A] @
          format_value env fb) \<and>
   (main_transcribe env s = Inr t \<and> fst (main_call_llama env t s) = Inr (JStr a) \<longrightarrow>
      label_text (snd (main_ai_pipeline env s)) =
          ''[b]'' @ [CHR 0xF0, CHR 0x9F, CHR 0x8E, CHR 0xA4] @ '' Interviewer Said:[/b]'' @ [CHR 0x0A] @
          t @ [CHR 0x0A, CHR 0x0A] @
          ''[b]'' @ [CHR 0xF0, CHR 0x9F, CHR 0xA4, CHR 0x96] @ '' Suggested Answer:[/b]'' @ [CHR 0x0A] @
          a) \<and>
   (test_transcribe env s = Inr t \<longrightarrow>
      http_log (snd (test_ai_pipeline env s)) =
        http_log s @
        [(''http://localhost:11434/api/chat'',
          JObj [(''model'', JStr ''phi3:mini''),
                (''messages'',
                   JArr [JObj [(''role'', JStr ''system''), (''content'', JStr test_system_content)],
                         JObj [(''role'', JStr ''user''), (''content'', JStr t)]]),
                (''stream'', JBool False),
                (''options'', JObj [(''num_predict'', JNum 150)])])]) \<and>
   (test_transcribe env s = Inr t \<and> fst (test_call_llama env t s) = Inr fb \<longrightarrow>
      fst (test_ai_pipeline env s) = None \<and>
      label_text (snd (test_ai_pipeline env s)) =
          ''[b] Interviewer Say:[/b]'' @ [CHR 0x0A] @
          t @ [CHR 0x0A, CHR 0x0A] @
          ''[b]'' @ [CHR 0xF0, CHR 0x9F, CHR 0xA4, CHR 0x96] @ '' Generated Answer:[/b]'' @ [CHR 0x0A] @
          format_value env fb) \<and>
   (test_transcribe env s = Inr t \<and> fst (test_call_llama env t s) = Inr (JStr a) \<longrightarrow>
      label_text (snd (test_ai_pipeline env s)) =
          ''[b] Interviewer Say:[/b]'' @ [CHR 0x0A] @
          t @ [CHR 0x0A, CHR 0x0A] @
          ''[b]'' @ [CHR 0xF0, CHR 0x9F, CHR 0xA4, CHR 0x96] @ '' Generated Answer:[/b]'' @ [CHR 0x0A] @
          a) \<and>
   (read_audio env s = Inr w \<and> google_result env w = Inl (Exn UnknownValueError m) \<longrightarrow>
      last (http_log (snd (main_ai_pipeline env s))) =
         (''http://localhost:11434/api/chat'',
          JObj [(''model'', JStr ''phi3:mini''),
                (''messages'',
                   JArr [JObj [(''role'', JStr ''system''), (''content'', JStr main_system_content)],
                         JObj [(''role'', JStr ''user''), (''content'', JStr ''Could not understand audio.'')]]),
                (''stream'', JBool False),
                (''options'', JObj [(''num_predict'', JNum 150)])]) \<and>
      last (http_log (snd (test_ai_pipeline env s))) =
         (''http://localhost:11434/api/chat'',
          JObj [(''model'', JStr ''phi3:mini''),
                (''messages'',
                   JArr [JObj [(''role'', JStr ''system''), (''content'', JStr test_system_content)],
                         JObj [(''role'', JStr ''user''), (''content'', JStr ([CHR 0xE2, CHR 0x9D, CHR 0x8C] @ '' Could not understand the audio.''))]]),
                (''stream'', JBool False),
                (''options'', JObj [(''num_predict'', JNum 150)])]) \<and>
      (fst (main_call_llama env ''Could not understand audio.'' s) = Inr (JStr a) \<longrightarrow>
         fst (main_ai_pipeline env s) = None \<and>
         label_text (snd (main_ai_pipeline env s)) =
          ''[b]'' @ [CHR 0xF0, CHR 0x9F, CHR 0x8E, CHR 0xA4] @ '' Interviewer Said:[/b]'' @ [CHR 0x0A] @
          ''Could not understand audio.'' @ [CHR 0x0A, CHR 0x0A] @
          ''[b]'' @ [CHR 0xF0, CHR 0x9F, CHR 0xA4, CHR 0x96] @ '' Suggested Answer:[/b]'' @ [CHR 0x0A] @
          a) \<and>
      (fst (test_call_llama env ([CHR 0xE2, CHR 0x9D, CHR 0x8C] @ '' Could not understand the audio.'') s) = Inr (JStr a) \<longrightarrow>
         fst (test_ai_pipeline env s) = None \<and>
         label_text (snd (test_ai_pipeline env s)) =
          ''[b] Interviewer Say:[/b]'' @ [CHR 0x0A] @
          ([CHR 0xE2, CHR 0x9D, CHR 0x8C] @ '' Could not understand the audio.'') @ [CHR 0x0A, CHR 0x0A] @
          ''[b]'' @ [CHR 0xF0, CHR 0x9F, CHR 0xA4, CHR 0x96] @ '' Generated Answer:[/b]'' @ [CHR 0x0A] @
          a)) \<and>
   (read_audio env s = Inr w \<and> google_result env w = Inl (Exn RequestError m) \<longrightarrow>
      last (http_log (snd (main_ai_pipeline env s))) =
         (''http://localhost:11434/api/chat'',
          JObj [(''model'', JStr ''phi3:mini''),
                (''messages'',
                   JArr [JObj [(''role'', JStr ''system''), (''content'', JStr main_system_content)],
                         JObj [(''role'', JStr ''user''), (''content'', JStr ''Google API error.'')]]),
                (''stream'', JBool False),
                (''options'', JObj [(''num_predict'', JNum 150)])]) \<and>
      last (http_log (snd (test_ai_pipeline env s))) =
         (''http://localhost:11434/api/chat'',
          JObj [(''model'', JStr ''phi3:mini''),
                (''messages'',
                   JArr [JObj [(''role'', JStr ''system''), (''content'', JStr test_system_content)],
                         JObj [(''role'', JStr ''user''), (''content'', JStr ([CHR 0xE2, CHR 0x9A, CHR 0xA0, CHR 0xEF, CHR 0xB8, CHR 0x8F] @ '' Google API error.''))]]),
                (''stream'', JBool False),
                (''options'', JObj [(''num_predict'', JNum 150)])]) \<and>
      (fst (main_call_llama env ''Google API error.'' s) = Inr (JStr a) \<longrightarrow>
         fst (main_ai_pipeline env s) = None \<and>
         label_text (snd (main_ai_pipeline env s)) =
          ''[b]'' @ [CHR 0xF0, CHR 0x9F, CHR 0x8E, CHR 0xA4] @ '' Interviewer Said:[/b]'' @ [CHR 0x0A] @
          ''Google API error.'' @ [CHR 0x0A, CHR 0x0A] @
          ''[b]'' @ [CHR 0xF0, CHR 0x9F, CHR 0xA4, CHR 0x96] @ '' Suggested Answer:[/b]'' @ [CHR 0x0A] @
          a) \<and>
      (fst (test_call_llama env ([CHR 0xE2, CHR 0x9A, CHR 0xA0, CHR 0xEF, CHR 0xB8, CHR 0x8F] @ '' Google API error.'') s) = Inr (JStr a) \<longrightarrow>
         fst (test_ai_pipeline env s) = None \<and>
         label_text (snd (test_ai_pipeline env s)) =
          ''[b] Interviewer Say:[/b]'' @ [CHR 0x0A] @
          ([CHR 0xE2, CHR 0x9A, CHR 0xA0, CHR 0xEF, CHR 0xB8, CHR 0x8F] @ '' Google API error.'') @ [CHR 0x0A, CHR 0x0A] @
          ''[b]'' @ [CHR 0xF0, CHR 0x9F, CHR 0xA4, CHR 0x96] @ '' Generated Answer:[/b]'' @ [CHR 0x0A] @
          a))"
proof (intro conjI impI; (elim conjE)?)
  assume "main_transcribe env s = Inr t"
  then show "http_log (snd (main_ai_pipeline env s)) =
        http_log s @
        [(''http://localhost:11434/api/chat'',
          JObj [(''model'', JStr ''phi3:mini''),
                (''messages'',
                   JArr [JObj [(''role'', JStr ''system''), (''content'', JStr main_system_content)],
                         JObj [(''role'', JStr ''user''), (''content'', JStr t)]]),
                (''stream'', JBool False),
                (''options'', JObj [(''num_predict'', JNum 150)])])]"
    by (rule main_pipeline_request(1))
next
  assume "test_transcribe env s = Inr t"
  then show "http_log (snd (test_ai_pipeline env s)) =
        http_log s @
        [(''http://localhost:11434/api/chat'',
          JObj [(''model'', JStr ''phi3:mini''),
                (''messages'',
                   JArr [JObj [(''role'', JStr ''system''), (''content'', JStr test_system_content)],
                         JObj [(''role'', JStr ''user''), (''content'', JStr t)]]),
                (''stream'', JBool False),
                (''options'', JObj [(''num_predict'', JNum 150)])])]"
    by (rule test_pipeline_request(1))
next
  assume a: "main_transcribe env s = Inr t" "fst (main_call_llama env t s) = Inr fb"
  show "fst (main_ai_pipeline env s) = None"
    by (rule main_pipeline_label(1) [OF a])
  show "label_text (snd (main_ai_pipeline env s)) =
          ''[b]'' @ [CHR 0xF0, CHR 0x9F, CHR 0x8E, CHR 0xA4] @ '' Interviewer Said:[/b]'' @ [CHR 0x0A] @
          t @ [CHR 0x0A, CHR 0x0A] @
          ''[b]'' @ [CHR 0xF0, CHR 0x9F, CHR 0xA4, CHR 0x96] @ '' Suggested Answer:[/b]'' @ [CHR 0x0A] @
          format_value env fb"
    by (rule main_pipeline_label(2) [OF a])
next
  assume a: "main_transcribe env s = Inr t" "fst (main_call_llama env t s) = Inr (JStr a)"
  show "label_text (snd (main_ai_pipeline env s)) =
          ''[b]'' @ [CHR 0xF0, CHR 0x9F, CHR 0x8E, CHR 0xA4] @ '' Interviewer Said:[/b]'' @ [CHR 0x0A] @
          t @ [CHR 0x0A, CHR 0x0A] @
          ''[b]'' @ [CHR 0xF0, CHR 0x9F, CHR 0xA4, CHR 0x96] @ '' Suggested Answer:[/b]'' @ [CHR 0x0A] @
          a"
    using main_pipeline_label(2) [OF a] by simp
next
  assume a: "test_transcribe env s = Inr t" "fst (test_call_llama env t s) = Inr fb"
  show "fst (test_ai_pipeline env s) = None"
    by (rule test_pipeline_label(1) [OF a])
  show "label_text (snd (test_ai_pipeline env s)) =
          ''[b] Interviewer Say:[/b]'' @ [CHR 0x0A] @
          t @ [CHR 0x0A, CHR 0x0A] @
          ''[b]'' @ [CHR 0xF0, CHR 0x9F, CHR 0xA4, CHR 0x96] @ '' Generated Answer:[/b]'' @ [CHR 0x0A] @
          format_value env fb"
    by (rule test_pipeline_label(2) [OF a])
next
  assume a: "test_transcribe env s = Inr t" "fst (test_call_llama env t s) = Inr (JStr a)"
  show "label_text (snd (test_ai_pipeline env s)) =
          ''[b] Interviewer Say:[/b]'' @ [CHR 0x0A] @
          t @ [CHR 0x0A, CHR 0x0A] @
          ''[b]'' @ [CHR 0xF0, CHR 0x9F, CHR 0xA4, CHR 0x96] @ '' Generated Answer:[/b]'' @ [CHR 0x0A] @
          a"
    using test_pipeline_label(2) [OF a] by simp
next
  assume a: "read_audio env s = Inr w" "google_result env w = Inl (Exn UnknownValueError m)"
  have mt: "main_transcribe env s = Inr ''Could not understand audio.''"
    unfolding main_transcribe_def by (rule transcribe_unknown [OF a])
  have tt: "test_transcribe env s = Inr ([CHR 0xE2, CHR 0x9D, CHR 0x8C] @ '' Could not understand the audio.'')"
    unfolding test_transcribe_def test_sentinels_explicit by (rule transcribe_unknown [OF a])
  show "last (http_log (snd (main_ai_pipeline env s))) =
         (''http://localhost:11434/api/chat'',
          JObj [(''model'', JStr ''phi3:mini''),
                (''messages'',
                   JArr [JObj [(''role'', JStr ''system''), (''content'', JStr main_system_content)],
                         JObj [(''role'', JStr ''user''), (''content'', JStr ''Could not understand audio.'')]]),
                (''stream'', JBool False),
                (''options'', JObj [(''num_predict'', JNum 150)])])"
    by (rule main_pipeline_request(2) [OF mt])
  show "last (http_log (snd (test_ai_pipeline env s))) =
         (''http://localhost:11434/api/chat'',
          JObj [(''model'', JStr ''phi3:mini''),
                (''messages'',
                   JArr [JObj [(''role'', JStr ''system''), (''content'', JStr test_system_content)],
                         JObj [(''role'', JStr ''user''), (''content'', JStr ([CHR 0xE2, CHR 0x9D, CHR 0x8C] @ '' Could not understand the audio.''))]]),
                (''stream'', JBool False),
                (''options'', JObj [(''num_predict'', JNum 150)])])"
    by (rule test_pipeline_request(2) [OF tt])
  {
    assume l: "fst (main_call_llama env ''Could not understand audio.'' s) = Inr (JStr a)"
    show "fst (main_ai_pipeline env s) = None"
      by (rule main_pipeline_label(1) [OF mt l])
    show "label_text (snd (main_ai_pipeline env s)) =
          ''[b]'' @ [CHR 0xF0, CHR 0x9F, CHR 0x8E, CHR 0xA4] @ '' Interviewer Said:[/b]'' @ [CHR 0x0A] @
          ''Could not understand audio.'' @ [CHR 0x0A, CHR 0x0A] @
          ''[b]'' @ [CHR 0xF0, CHR 0x9F, CHR 0xA4, CHR 0x96] @ '' Suggested Answer:[/b]'' @ [CHR 0x0A] @
          a"
      using main_pipeline_label(2) [OF mt l] by simp
  }
  {
    assume l: "fst (test_call_llama env ([CHR 0xE2, CHR 0x9D, CHR 0x8C] @ '' Could not understand the audio.'') s) = Inr (JStr a)"
    show "fst (test_ai_pipeline env s) = None"
      by (rule test_pipeline_label(1) [OF tt l])
    show "label_text (snd (test_ai_pipeline env s)) =
          ''[b] Interviewer Say:[/b]'' @ [CHR 0x0A] @
          ([CHR 0xE2, CHR 0x9D, CHR 0x8C] @ '' Could not understand the audio.'') @ [CHR 0x0A, CHR 0x0A] @
          ''[b]'' @ [CHR 0xF0, CHR 0x9F, CHR 0xA4, CHR 0x96] @ '' Generated Answer:[/b]'' @ [CHR 0x0A] @
          a"
      using test_pipeline_label(2) [OF tt l] by simp
  }
next
  assume a: "read_audio env s = Inr w" "google_result env w = Inl (Exn RequestError m)"
  have mt: "main_transcribe env s = Inr ''Google API error.''"
    unfolding main_transcribe_def by (rule transcribe_request [OF a])
  have tt: "test_transcribe env s = Inr ([CHR 0xE2, CHR 0x9A, CHR 0xA0, CHR 0xEF, CHR 0xB8, CHR 0x8F] @ '' Google API error.'')"
    unfolding test_transcribe_def test_sentinels_explicit by (rule transcribe_request [OF a])
  show "last (http_log (snd (main_ai_pipeline env s))) =
         (''http://localhost:11434/api/chat'',
          JObj [(''model'', JStr ''phi3:mini''),
                (''messages'',
                   JArr [JObj [(''role'', JStr ''system''), (''content'', JStr main_system_content)],
                         JObj [(''role'', JStr ''user''), (''content'', JStr ''Google API error.'')]]),
                (''stream'', JBool False),
                (''options'', JObj [(''num_predict'', JNum 150)])])"
    by (rule main_pipeline_request(2) [OF mt])
  show "last (http_log (snd (test_ai_pipeline env s))) =
         (''http://localhost:11434/api/chat'',
          JObj [(''model'', JStr ''phi3:mini''),
                (''messages'',
                   JArr [JObj [(''role'', JStr ''system''), (''content'', JStr test_system_content)],
                         JObj [(''role'', JStr ''user''), (''content'', JStr ([CHR 0xE2, CHR 0x9A, CHR 0xA0, CHR 0xEF, CHR 0xB8, CHR 0x8F] @ '' Google API error.''))]]),
                (''stream'', JBool False),
                (''options'', JObj [(''num_predict'', JNum 150)])])"
    by (rule test_pipeline_request(2) [OF tt])
  {
    assume l: "fst (main_call_llama env ''Google API error.'' s) = Inr (JStr a)"
    show "fst (main_ai_pipeline env s) = None"
      by (rule main_pipeline_label(1) [OF mt l])
    show "label_text (snd (main_ai_pipeline env s)) =
          ''[b]'' @ [CHR 0xF0, CHR 0x9F, CHR 0x8E, CHR 0xA4] @ '' Interviewer Said:[/b]'' @ [CHR 0x0A] @
          ''Google API error.'' @ [CHR 0x0A, CHR 0x0A] @
          ''[b]'' @ [CHR 0xF0, CHR 0x9F, CHR 0xA4, CHR 0x96] @ '' Suggested Answer:[/b]'' @ [CHR 0x0A] @
          a"
      using main_pipeline_label(2) [OF mt l] by simp
  }
  {
    assume l: "fst (test_call_llama env ([CHR 0xE2, CHR 0x9A, CHR 0xA0, CHR 0xEF, CHR 0xB8, CHR 0x8F] @ '' Google API error.'') s) = Inr (JStr a)"
    show "fst (test_ai_pipeline env s) = None"
      by (rule test_pipeline_label(1) [OF tt l])
    show "label_text (snd (test_ai_pipeline env s)) =
          ''[b] Interviewer Say:[/b]'' @ [CHR 0x0A] @
          ([CHR 0xE2, CHR 0x9A, CHR 0xA0, CHR 0xEF, CHR 0xB8, CHR 0x8F] @ '' Google API error.'') @ [CHR 0x0A, CHR 0x0A] @
          ''[b]'' @ [CHR 0xF0, CHR 0x9F, CHR 0xA4, CHR 0x96] @ '' Generated Answer:[/b]'' @ [CHR 0x0A] @
          a"
      using test_pipeline_label(2) [OF tt l] by simp
  }
qed

theorem ai_pipeline_sends_transcript_witness:
  "last (http_log (snd (main_ai_pipeline
       (example_env\<lparr>google_result := (\<lambda>w. Inl (Exn UnknownValueError []))\<rparr>)
       (main_build\<lparr>files := [AUDIO_FILE \<mapsto> example_wav]\<rparr>)))) =
         (''http://localhost:11434/api/chat'',
          JObj [(''model'', JStr ''phi3:mini''),
                (''messages'',
                   JArr [JObj [(''role'', JStr ''system''), (''content'', JStr main_system_content)],
                         JObj [(''role'', JStr ''user''), (''content'', JStr ''Could not understand audio.'')]]),
                (''stream'', JBool False),
                (''options'', JObj [(''num_predict'', JNum 150)])]) \<and>
   fst (main_ai_pipeline
       (example_env\<lparr>google_result := (\<lambda>w. Inl (Exn UnknownValueError []))\<rparr>)
       (main_build\<lparr>files := [AUDIO_FILE \<mapsto> example_wav]\<rparr>)) = None \<and>
   label_text (snd (main_ai_pipeline
       (example_env\<lparr>google_result := (\<lambda>w. Inl (Exn UnknownValueError []))\<rparr>)
       (main_build\<lparr>files := [AUDIO_FILE \<mapsto> example_wav]\<rparr>))) =
          ''[b]'' @ [CHR 0xF0, CHR 0x9F, CHR 0x8E, CHR 0xA4] @ '' Interviewer Said:[/b]'' @ [CHR 0x0A] @
          ''Could not understand audio.'' @ [CHR 0x0A, CHR 0x0A] @
          ''[b]'' @ [CHR 0xF0, CHR 0x9F, CHR 0xA4, CHR 0x96] @ '' Suggested Answer:[/b]'' @ [CHR 0x0A] @
          ''hi''"
proof -
  let ?env = "example_env\<lparr>google_result := (\<lambda>w. Inl (Exn UnknownValueError []))\<rparr>"
  let ?s = "main_build\<lparr>files := [AUDIO_FILE \<mapsto> example_wav]\<rparr>"
  have r: "read_audio ?env ?s = Inr example_wav"
    by (simp add: read_audio_def example_env_def)
  have g: "google_result ?env example_wav = Inl (Exn UnknownValueError [])"
    by simp
  have l: "fst (main_call_llama ?env ''Could not understand audio.'' ?s) = Inr (JStr ''hi'')"
    by (simp add: main_call_llama_def call_llama_def Let_def example_env_def
        raise_for_status_def)
  note T = ai_pipeline_sends_transcript
             [of ?env ?s _ _ "''hi''" example_wav "[]",
              THEN conjunct2, THEN conjunct2, THEN conjunct2, THEN conjunct2,
              THEN conjunct2, THEN conjunct2, THEN conjunct1, rule_format,
              OF conjI, OF r g]
  have "last (http_log (snd (main_ai_pipeline ?env ?s))) =
         (''http://localhost:11434/api/chat'',
          JObj [(''model'', JStr ''phi3:mini''),
                (''messages'',
                   JArr [JObj [(''role'', JStr ''system''), (''content'', JStr main_system_content)],
                         JObj [(''role'', JStr ''user''), (''content'', JStr ''Could not understand audio.'')]]),
                (''stream'', JBool False),
                (''options'', JObj [(''num_predict'', JNum 150)])])"
    by (rule T [THEN conjunct1])
  moreover have "fst (main_ai_pipeline ?env ?s) = None \<and>
      label_text (snd (main_ai_pipeline ?env ?s)) =
          ''[b]'' @ [CHR 0xF0, CHR 0x9F, CHR 0x8E, CHR 0xA4] @ '' Interviewer Said:[/b]'' @ [CHR 0x0A] @
          ''Could not understand audio.'' @ [CHR 0x0A, CHR 0x0A] @
          ''[b]'' @ [CHR 0xF0, CHR 0x9F, CHR 0xA4, CHR 0x96] @ '' Suggested Answer:[/b]'' @ [CHR 0x0A] @
          ''hi''"
    by (rule T [THEN conjunct2, THEN conjunct2, THEN conjunct1, THEN mp, OF l])
  ultimately show ?thesis
    by - (rule conjI; assumption)
qed

subsection \<open>Exceptions in the handlers\<close>

lemma find_monitor_none:
  "\<forall>d \<in> set ds. \<not> monitor_input d \<Longrightarrow>
   find_monitor k ds =
     Inl (Exn OtherException ''No PulseAudio monitor device found. Install pavucontrol.'')"
  by (induction ds arbitrary: k) (auto simp: monitor_input_def py_in_sublist)

lemma main_start_no_device:
  assumes "\<forall>d \<in> set (devices env). \<not> monitor_input d"
  shows "main_start_try env s =
     (Some (Exn OtherException ''No PulseAudio monitor device found. Install pavucontrol.''),
      s\<lparr>label_text := ''[b]'' @ emoji_microphone @ '' Recording Speaker Audio...[/b]'',
        start_disabled := True, stop_disabled := False, gen_disabled := True\<rparr>)"
  by (simp add: main_start_try_def get_monitor_device_def find_monitor_none [OF assms])

lemma main_start_caught:
  "main_start_try env s = (Some e, s') \<Longrightarrow> is_Exception e \<Longrightarrow>
   main_start_recording env s =
     (None, s'\<lparr>label_text := ''[b]'' @ emoji_cross @ '' Error:[/b]'' @ nl @ exn_str e,
               start_disabled := False, stop_disabled := True\<rparr>)"
  by (simp add: main_start_recording_def main_start_except_def)

lemma pipeline_caught:
  "is_Exception e \<Longrightarrow>
   try_except_finally (Some e, s') =
     (None, s'\<lparr>label_text := ''[b]'' @ emoji_cross @ '' Error[/b]'' @ nl @ exn_str e,
               gen_disabled := False\<rparr>)"
  by (simp add: try_except_finally_def pipeline_except_def pipeline_finally_def)

lemma main_stop_write_error:
  "recording s = Some r \<Longrightarrow>
   np_max_abs (if ndim r = 2 then mean_axis1 r else r) = Inr m \<Longrightarrow>
   write_raises env = Some e \<Longrightarrow>
   main_stop_recording env s =
     (Some e, s\<lparr>stream := None,
                recording := Some (if ndim r = 2 then mean_axis1 r else r)\<rparr>)"
  by (simp add: main_stop_recording_Some Let_def)

lemma test_stop_write_error:
  "recording s = Some r \<Longrightarrow> np_max_abs r = Inr m \<Longrightarrow> write_raises env = Some e \<Longrightarrow>
   test_stop_recording env s = (Some e, s\<lparr>stream := None\<rparr>)"
  by (simp add: test_stop_recording_def sd_stop_def Let_def wavfile_write_def)

lemma example_main_started:
  "main_start_recording example_env main_build =
     (None, main_build\<lparr>label_text := ''[b]'' @ emoji_microphone @
                                      '' Recording Speaker Audio...[/b]'',
               start_disabled := True, stop_disabled := False, gen_disabled := True,
               monitor_device := Some 1, stream := Some (main_rec_args 1),
               recording := Some (Stereo (replicate 2646000 (0, 0)))\<rparr>)"
proof -
  have a: "audio example_env = (\<lambda>k c. 0)" by (simp add: example_env_def)
  show ?thesis
    by (simp add: main_start_recording_def main_start_try_ok [OF example_monitor example_rec]
        a map_replicate_const)
qed

lemma example_main_write_error:
  "main_stop_recording (example_env\<lparr>write_raises := Some e\<rparr>)
     (snd (main_start_recording example_env main_build)) =
   (Some e, main_build\<lparr>label_text := ''[b]'' @ emoji_microphone @
                                      '' Recording Speaker Audio...[/b]'',
               start_disabled := True, stop_disabled := False, gen_disabled := True,
               monitor_device := Some 1, stream := None,
               recording := Some (Flat (replicate 2646000 0))\<rparr>)"
proof -
  let ?s = "snd (main_start_recording example_env main_build)"
  have r: "recording ?s = Some (Stereo (replicate 2646000 (0, 0)))"
    by (simp add: example_main_started)
  have m: "np_max_abs (if ndim (Stereo (replicate 2646000 (0::real, 0::real))) = 2
                       then mean_axis1 (Stereo (replicate 2646000 (0, 0)))
                       else Stereo (replicate 2646000 (0, 0))) = Inr 0"
    by (simp add: np_max_abs_2646000)
  have w: "write_raises (example_env\<lparr>write_raises := Some e\<rparr>) = Some e" by simp
  show ?thesis
    unfolding main_stop_write_error [OF r m w]
    by (simp add: example_main_started)
qed

lemma example_no_monitor:
  "\<forall>d \<in> set (devices (example_env\<lparr>devices :=
      [\<lparr>name = ''Built-in Audio Analog Stereo'', max_input_channels = 2\<rparr>]\<rparr>)).
     \<not> monitor_input d"
proof -
  have "\<not> py_in ''monitor'' (lower ''Built-in Audio Analog Stereo'')"
    by code_simp
  then show ?thesis
    by (simp add: monitor_input_def py_in_sublist)
qed

lemma example_no_file:
  "main_pipeline_try example_env main_build =
     (Some (Exn OtherException
        (''[Errno 2] No such file or directory: '' @ [CHR 0x27] @ AUDIO_FILE @ [CHR 0x27])),
      main_build)"
  by (simp add: main_pipeline_try_def main_transcribe_def transcribe_def read_audio_def
      main_build_def)

text \<open>
  C3, as the claim states it: no handler would let an exception escape. A session of
  main.py in which the wave file cannot be opened for writing: \<open>stop_recording\<close> has no
  \<open>try\<close>, the exception (an \<open>Exception\<close>) leaves it, and the label still shows the text
  \<open>start_recording\<close> put there.
\<close>

theorem main_stop_recording_error_escapes:
  "fst (main_stop_recording
          (example_env\<lparr>write_raises := Some (Exn OtherException
             (''[Errno 13] Permission denied: '' @ [CHR 0x27] @ AUDIO_FILE @ [CHR 0x27]))\<rparr>)
          (snd (main_start_recording example_env main_build))) =
     Some (Exn OtherException
             (''[Errno 13] Permission denied: '' @ [CHR 0x27] @ AUDIO_FILE @ [CHR 0x27])) \<and>
   is_Exception (Exn OtherException
             (''[Errno 13] Permission denied: '' @ [CHR 0x27] @ AUDIO_FILE @ [CHR 0x27])) \<and>
   label_text (snd (main_stop_recording
          (example_env\<lparr>write_raises := Some (Exn OtherException
             (''[Errno 13] Permission denied: '' @ [CHR 0x27] @ AUDIO_FILE @ [CHR 0x27]))\<rparr>)
          (snd (main_start_recording example_env main_build)))) =
     ''[b]'' @ emoji_microphone @ '' Recording Speaker Audio...[/b]''"
  by (simp add: example_main_write_error)

text \<open>
  C3, amended. An exception deriving from \<open>Exception\<close> that is raised inside the \<open>try\<close>
  block of main.py's \<open>start_recording\<close>, or of \<open>ai_pipeline\<close> in either program, is caught
  there and its text is put in the label, after \<open>Error:\<close> or \<open>Error\<close>, and nothing leaves
  the handler; so it is when no monitor device is found. \<open>stop_recording\<close> has no handler
  in either program: an exception raised by the write of the wave file leaves it, with
  the label and the buttons as they were.
\<close>

theorem handlers_catch_Exception:
  "(main_start_try env s = (Some e, s') \<and> is_Exception e \<longrightarrow>
      main_start_recording env s =
        (None, s'\<lparr>label_text := ''[b]'' @ emoji_cross @ '' Error:[/b]'' @ nl @ exn_str e,
                  start_disabled := False, stop_disabled := True\<rparr>)) \<and>
   ((\<forall>d \<in> set (devices env). \<not> monitor_input d) \<longrightarrow>
      main_start_recording env s =
        (None, s\<lparr>label_text := ''[b]'' @ emoji_cross @ '' Error:[/b]'' @ nl @
                     ''No PulseAudio monitor device found. Install pavucontrol.'',
                 start_disabled := False, stop_disabled := True, gen_disabled := True\<rparr>)) \<and>
   (main_pipeline_try env s = (Some e, s') \<and> is_Exception e \<longrightarrow>
      main_ai_pipeline env s =
        (None, s'\<lparr>label_text := ''[b]'' @ emoji_cross @ '' Error[/b]'' @ nl @ exn_str e,
                  gen_disabled := False\<rparr>)) \<and>
   (test_pipeline_try env s = (Some e, s') \<and> is_Exception e \<longrightarrow>
      test_ai_pipeline env s =
        (None, s'\<lparr>label_text := ''[b]'' @ emoji_cross @ '' Error[/b]'' @ nl @ exn_str e,
                  gen_disabled := False\<rparr>)) \<and>
   (recording s = Some r \<and>
    np_max_abs (if ndim r = 2 then mean_axis1 r else r) = Inr m \<and>
    write_raises env = Some e \<longrightarrow>
      main_stop_recording env s =
        (Some e, s\<lparr>stream := None,
                   recording := Some (if ndim r = 2 then mean_axis1 r else r)\<rparr>)) \<and>
   (recording s = Some r \<and> np_max_abs r = Inr m \<and> write_raises env = Some e \<longrightarrow>
      test_stop_recording env s = (Some e, s\<lparr>stream := None\<rparr>))"
proof (intro conjI impI; (elim conjE)?)
  assume "main_start_try env s = (Some e, s')" "is_Exception e"
  then show "main_start_recording env s =
        (None, s'\<lparr>label_text := ''[b]'' @ emoji_cross @ '' Error:[/b]'' @ nl @ exn_str e,
                  start_disabled := False, stop_disabled := True\<rparr>)"
    by (rule main_start_caught)
next
  assume a: "\<forall>d \<in> set (devices env). \<not> monitor_input d"
  have "main_start_recording env s =
     (None, (s\<lparr>label_text := ''[b]'' @ emoji_microphone @ '' Recording Speaker Audio...[/b]'',
        start_disabled := True, stop_disabled := False, gen_disabled := True\<rparr>)
        \<lparr>label_text := ''[b]'' @ emoji_cross @ '' Error:[/b]'' @ nl @
           exn_str (Exn OtherException
                      ''No PulseAudio monitor device found. Install pavucontrol.''),
         start_disabled := False, stop_disabled := True\<rparr>)"
    by (rule main_start_caught [OF main_start_no_device [OF a]]) simp
  then show "main_start_recording env s =
        (None, s\<lparr>label_text := ''[b]'' @ emoji_cross @ '' Error:[/b]'' @ nl @
                     ''No PulseAudio monitor device found. Install pavucontrol.'',
                 start_disabled := False, stop_disabled := True, gen_disabled := True\<rparr>)"
    by simp
next
  assume "main_pipeline_try env s = (Some e, s')" "is_Exception e"
  then show "main_ai_pipeline env s =
        (None, s'\<lparr>label_text := ''[b]'' @ emoji_cross @ '' Error[/b]'' @ nl @ exn_str e,
                  gen_disabled := False\<rparr>)"
    by (simp add: main_ai_pipeline_def pipeline_caught)
next
  assume "test_pipeline_try env s = (Some e, s')" "is_Exception e"
  then show "test_ai_pipeline env s =
        (None, s'\<lparr>label_text := ''[b]'' @ emoji_cross @ '' Error[/b]'' @ nl @ exn_str e,
                  gen_disabled := False\<rparr>)"
    by (simp add: test_ai_pipeline_def pipeline_caught)
next
  assume "recording s = Some r"
    "np_max_abs (if ndim r = 2 then mean_axis1 r else r) = Inr m"
    "write_raises env = Some e"
  then show "main_stop_recording env s =
        (Some e, s\<lparr>stream := None,
                   recording := Some (if ndim r = 2 then mean_axis1 r else r)\<rparr>)"
    by (rule main_stop_write_error)
next
  assume "recording s = Some r" "np_max_abs r = Inr m" "write_raises env = Some e"
  then show "test_stop_recording env s = (Some e, s\<lparr>stream := None\<rparr>)"
    by (rule test_stop_write_error)
qed

theorem handlers_catch_Exception_witness:
  "main_start_recording
     (example_env\<lparr>devices :=
        [\<lparr>name = ''Built-in Audio Analog Stereo'', max_input_channels = 2\<rparr>]\<rparr>)
     main_build =
     (None, main_build\<lparr>label_text := ''[b]'' @ emoji_cross @ '' Error:[/b]'' @ nl @
                     ''No PulseAudio monitor device found. Install pavucontrol.'',
                 start_disabled := False, stop_disabled := True, gen_disabled := True\<rparr>) \<and>
   main_ai_pipeline example_env main_build =
     (None, main_build\<lparr>label_text := ''[b]'' @ emoji_cross @ '' Error[/b]'' @ nl @
               ''[Errno 2] No such file or directory: '' @ [CHR 0x27] @ AUDIO_FILE @ [CHR 0x27],
             gen_disabled := False\<rparr>) \<and>
   fst (main_stop_recording
          (example_env\<lparr>write_raises := Some (Exn OtherException ''disk full'')\<rparr>)
          (snd (main_start_recording example_env main_build))) =
     Some (Exn OtherException ''disk full'') \<and>
   fst (test_stop_recording
          (example_env\<lparr>write_raises := Some (Exn OtherException ''disk full'')\<rparr>)
          (snd (test_start_recording example_env test_build))) =
     Some (Exn OtherException ''disk full'')"
proof -
  let ?nodev = "example_env\<lparr>devices :=
        [\<lparr>name = ''Built-in Audio Analog Stereo'', max_input_channels = 2\<rparr>]\<rparr>"
  let ?full = "example_env\<lparr>write_raises := Some (Exn OtherException ''disk full'')\<rparr>"
  let ?m = "snd (main_start_recording example_env main_build)"
  let ?t = "snd (test_start_recording example_env test_build)"
  let ?missing = "Exn OtherException
        (''[Errno 2] No such file or directory: '' @ [CHR 0x27] @ AUDIO_FILE @ [CHR 0x27])"
  have c1: "main_start_recording ?nodev main_build =
     (None, main_build\<lparr>label_text := ''[b]'' @ emoji_cross @ '' Error:[/b]'' @ nl @
                     ''No PulseAudio monitor device found. Install pavucontrol.'',
                 start_disabled := False, stop_disabled := True, gen_disabled := True\<rparr>)"
    by (rule handlers_catch_Exception [THEN conjunct2, THEN conjunct1, rule_format,
          OF example_no_monitor [rule_format]])
  have e: "is_Exception ?missing" by simp
  have "main_ai_pipeline example_env main_build =
     (None, main_build\<lparr>label_text := ''[b]'' @ emoji_cross @ '' Error[/b]'' @ nl @
               exn_str ?missing, gen_disabled := False\<rparr>)"
    by (rule handlers_catch_Exception [THEN conjunct2, THEN conjunct2, THEN conjunct1,
          rule_format, OF conjI, OF example_no_file e])
  then have c2: "main_ai_pipeline example_env main_build =
     (None, main_build\<lparr>label_text := ''[b]'' @ emoji_cross @ '' Error[/b]'' @ nl @
               ''[Errno 2] No such file or directory: '' @ [CHR 0x27] @ AUDIO_FILE @ [CHR 0x27],
             gen_disabled := False\<rparr>)"
    by simp
  have w: "write_raises ?full = Some (Exn OtherException ''disk full'')" by simp
  have rm: "recording ?m = Some (Stereo (replicate 2646000 (0, 0)))"
    by (simp add: example_main_started)
  have mm: "np_max_abs (if ndim (Stereo (replicate 2646000 (0::real, 0::real))) = 2
                       then mean_axis1 (Stereo (replicate 2646000 (0, 0)))
                       else Stereo (replicate 2646000 (0, 0))) = Inr 0"
    by (simp add: np_max_abs_2646000)
  have "main_stop_recording ?full ?m =
        (Some (Exn OtherException ''disk full''),
         ?m\<lparr>stream := None,
             recording := Some (if ndim (Stereo (replicate 2646000 (0::real, 0::real))) = 2
                       then mean_axis1 (Stereo (replicate 2646000 (0, 0)))
                       else Stereo (replicate 2646000 (0, 0)))\<rparr>)"
    by (rule handlers_catch_Exception [THEN conjunct2, THEN conjunct2, THEN conjunct2,
          THEN conjunct2, THEN conjunct1, rule_format, OF conjI, OF rm conjI, OF mm w])
  then have c3: "fst (main_stop_recording ?full ?m) = Some (Exn OtherException ''disk full'')"
    by (simp only: fst_conv)
  have rt: "recording ?t = Some (Col (replicate 2646000 0))"
    by (simp add: example_test_started)
  have "test_stop_recording ?full ?t =
          (Some (Exn OtherException ''disk full''), ?t\<lparr>stream := None\<rparr>)"
    by (rule handlers_catch_Exception [THEN conjunct2, THEN conjunct2, THEN conjunct2,
          THEN conjunct2, THEN conjunct2, rule_format, OF conjI, OF rt conjI,
          OF np_max_abs_2646000(1) w])
  then have c4: "fst (test_stop_recording ?full ?t) = Some (Exn OtherException ''disk full'')"
    by (simp only: fst_conv)
  from c1 c2 c3 c4 show ?thesis
    by - (intro conjI; assumption)
qed

end
